theory Spec2Isabelle
  imports Complex_Main
begin

section \<open>Data model\<close>

text \<open>
  Texts are lists of characters; a character of the model is one code unit below 256.
  A JavaScript value that may be \<^verbatim>\<open>undefined\<close> or \<^verbatim>\<open>null\<close> is an \<open>option\<close>.
  An identifier of the durable store (a MongoDB ObjectId) is kept as its canonical text:
  24 lower-case hexadecimal digits.
\<close>

type_synonym objectId = string

text \<open>
  An error that a handler raises and nothing catches: the handler sends no answer. The
  result of a handler is such an error (\<open>Inl\<close>) or its answer, with the state it leaves.
\<close>

datatype error = TypeError | BSONTypeError

record user =
  user_id :: objectId
  email :: string
  password :: string

text \<open>What \<^verbatim>\<open>getUserFromSession\<close> and \<^verbatim>\<open>addUser\<close> hand out: \<^verbatim>\<open>{ email, id }\<close>.\<close>

record currentUser =
  cu_email :: string
  cu_id :: objectId

record request =
  authorization :: "string option"
  x_token :: "string option"
  param_id :: string
  query_parentId :: "string option"
  query_page :: "string option"
  query_size :: "string option"
  body_email :: "string option"
  body_password :: "string option"
  body_name :: "string option"
  body_type :: "string option"
  body_parentId :: "string option"
  body_isPublic :: "bool option"
  body_data :: "string option"

section \<open>utils/db.js\<close>

definition isLowerHexDigit :: "char \<Rightarrow> bool" where
  "isLowerHexDigit c =
     (let n = (of_char c :: nat) in (48 \<le> n \<and> n \<le> 57) \<or> (97 \<le> n \<and> n \<le> 102))"

definition isUpperHexLetter :: "char \<Rightarrow> bool" where
  "isUpperHexLetter c = (let n = (of_char c :: nat) in 65 \<le> n \<and> n \<le> 70)"

definition isHexDigit :: "char \<Rightarrow> bool" where
  "isHexDigit c = (isLowerHexDigit c \<or> isUpperHexLetter c)"

definition hexDigitOf :: "nat \<Rightarrow> char" where
  "hexDigitOf n = ''0123456789abcdef'' ! (n mod 16)"

definition toLowerHex :: "char \<Rightarrow> char" where
  "toLowerHex c = (if isUpperHexLetter c then char_of (of_char c + (32::nat)) else c)"

definition byteHex :: "char \<Rightarrow> string" where
  "byteHex c = [hexDigitOf (of_char c div 16), hexDigitOf (of_char c mod 16)]"

text \<open>
  The driver's \<^verbatim>\<open>ObjectId(text)\<close>: a text of 24 hexadecimal digits is read as such, a
  text of 12 characters is taken as the 12 bytes themselves, and anything else raises.
\<close>

definition ObjectId :: "string \<Rightarrow> error + objectId" where
  "ObjectId s =
     (if length s = 24 \<and> list_all isHexDigit s then Inr (map toLowerHex s)
      else if length s = 12 then Inr (concat (map byteHex s))
      else Inl BSONTypeError)"

definition findUserByEmail :: "user list \<Rightarrow> string \<Rightarrow> user option" where
  "findUserByEmail users e = find (\<lambda>u. email u = e) users"

definition findUserById :: "user list \<Rightarrow> string \<Rightarrow> error + user option" where
  "findUserById users userId =
     (case ObjectId userId of
        Inl e \<Rightarrow> Inl e
      | Inr oid \<Rightarrow> Inr (find (\<lambda>u. user_id u = oid) users))"

text \<open>
  \<^verbatim>\<open>addUser\<close>: the hash function \<open>sha1\<close> is the library's and is a parameter; \<open>oid\<close> is
  the identifier the store generates for the inserted document.
\<close>

definition addUser ::
  "(string \<Rightarrow> string) \<Rightarrow> user list \<Rightarrow> objectId \<Rightarrow> string \<Rightarrow> string
     \<Rightarrow> currentUser \<times> user list" where
  "addUser sha1 users oid e p =
     (let hashedPassword = sha1 p;
          doc = \<lparr>user_id = oid, email = e, password = hashedPassword\<rparr>
      in (\<lparr>cu_email = email doc, cu_id = user_id doc\<rparr>, users @ [doc]))"

section \<open>utils/auth.js: the session store\<close>

text \<open>
  The cache maps keys to texts. The expiry time given to \<^verbatim>\<open>set\<close> is the cache's to apply
  and is not modelled: every operation below happens within the lifetime of the keys it
  reads, and commands take effect in the order in which they are issued.
\<close>

type_synonym redis = "string \<rightharpoonup> string"

definition redis_set :: "redis \<Rightarrow> string \<Rightarrow> string \<Rightarrow> nat \<Rightarrow> redis" where
  "redis_set r key v expiry = r(key \<mapsto> v)"

definition redis_get :: "redis \<Rightarrow> string \<Rightarrow> string option" where
  "redis_get r key = r key"

definition redis_del :: "redis \<Rightarrow> string \<Rightarrow> redis" where
  "redis_del r key = r(key := None)"

text \<open>\<open>token\<close> is the value \<^verbatim>\<open>uuidv4()\<close> returned.\<close>

definition generateSessionToken :: "redis \<Rightarrow> string \<Rightarrow> string \<Rightarrow> string \<times> redis" where
  "generateSessionToken r token userId =
     (let key = ''auth_'' @ token in (token, redis_set r key userId (24 * 60 * 60)))"

definition deleteSessionToken :: "redis \<Rightarrow> string \<Rightarrow> bool \<times> redis" where
  "deleteSessionToken r token =
     (case redis_get r (''auth_'' @ token) of
        None \<Rightarrow> (False, r)
      | Some userId \<Rightarrow>
          if userId = [] then (False, r)
          else (True, redis_del r (''auth_'' @ token)))"

definition getUserFromSession ::
  "redis \<Rightarrow> user list \<Rightarrow> string \<Rightarrow> error + currentUser option" where
  "getUserFromSession r users token =
     (case redis_get r (''auth_'' @ token) of
        None \<Rightarrow> Inr None
      | Some userId \<Rightarrow>
          if userId = [] then Inr None
          else (case findUserById users userId of
                  Inl e \<Rightarrow> Inl e
                | Inr None \<Rightarrow> Inr None
                | Inr (Some u) \<Rightarrow> Inr (Some \<lparr>cu_email = email u, cu_id = user_id u\<rparr>)))"

definition getSessionToken :: "request \<Rightarrow> string option" where
  "getSessionToken req =
     (case x_token req of
        None \<Rightarrow> None
      | Some xHeader \<Rightarrow> if xHeader = [] then None else Some xHeader)"

definition getCurrentUser ::
  "redis \<Rightarrow> user list \<Rightarrow> request \<Rightarrow> error + currentUser option" where
  "getCurrentUser r users req =
     (case getSessionToken req of
        None \<Rightarrow> Inr None
      | Some token \<Rightarrow> getUserFromSession r users token)"

definition isObjectIdHex :: "string \<Rightarrow> bool" where
  "isObjectIdHex s = (length s = 24 \<and> list_all isLowerHexDigit s)"

section \<open>utils/auth.js: credentials\<close>

text \<open>
  \<^verbatim>\<open>String.prototype.split\<close> with a one-character separator: the pieces between the
  separators, in order; a text without the separator is the only piece.
\<close>

fun split_js :: "char \<Rightarrow> string \<Rightarrow> string list" where
  "split_js sep [] = [[]]"
| "split_js sep (c # cs) =
     (if c = sep then [] # split_js sep cs
      else (case split_js sep cs of
              [] \<Rightarrow> [[c]]
            | w # ws \<Rightarrow> (c # w) # ws))"

text \<open>Reading an array at an index: \<^verbatim>\<open>undefined\<close> out of range.\<close>

definition nth_js :: "'a list \<Rightarrow> nat \<Rightarrow> 'a option" where
  "nth_js xs i = (if i < length xs then Some (xs ! i) else None)"

record credentials =
  cred_email :: "string option"
  cred_password :: "string option"

text \<open>
  \<open>decode\<close> stands for \<^verbatim>\<open>Buffer.from(token, 'base64').toString('utf-8')\<close>, the
  platform's decoder.
\<close>

definition getBasicAuthToken :: "(string \<Rightarrow> string) \<Rightarrow> request \<Rightarrow> credentials option" where
  "getBasicAuthToken decode req =
     (case authorization req of
        None \<Rightarrow> None
      | Some authHeader \<Rightarrow>
          if authHeader = [] then None
          else (case nth_js (split_js CHR '' '' authHeader) 1 of
                  None \<Rightarrow> None
                | Some token \<Rightarrow>
                    if token = [] then None
                    else (let decodedToken = decode token;
                              parts = split_js CHR '':'' decodedToken
                          in Some \<lparr>cred_email = nth_js parts 0,
                                   cred_password = nth_js parts 1\<rparr>)))"

definition authenticateUser ::
  "(string \<Rightarrow> string) \<Rightarrow> user list \<Rightarrow> string \<Rightarrow> string \<Rightarrow> user option" where
  "authenticateUser sha1 users e p =
     (case findUserByEmail users e of
        None \<Rightarrow> None
      | Some u \<Rightarrow>
          (let hashedPassword = sha1 p
           in if password u \<noteq> hashedPassword then None else Some u))"

section \<open>Documents and answers\<close>

text \<open>
  A file document; \<open>file_parentId = None\<close> is the root (the source's \<^verbatim>\<open>0\<close>), and a folder
  has no \<open>file_localPath\<close>.
\<close>

record File =
  file_id :: objectId
  file_userId :: objectId
  file_name :: string
  file_type :: string
  file_isPublic :: bool
  file_parentId :: "objectId option"
  file_localPath :: "string option"

datatype body =
    ErrorBody string
  | UserBody currentUser
  | TokenBody string
  | FileBody File
  | FilesBody "File list"
  | DataBody "string option" string
  | NoBody

datatype response = Response nat body

text \<open>JavaScript's test \<^verbatim>\<open>!v\<close> on a value that is a text or absent.\<close>

definition falsy :: "string option \<Rightarrow> bool" where
  "falsy v = (case v of None \<Rightarrow> True | Some s \<Rightarrow> s = [])"

section \<open>controllers/AuthController.js\<close>

text \<open>
  \<^verbatim>\<open>getConnect\<close> takes the credentials apart with a destructuring pattern, which raises
  a \<^verbatim>\<open>TypeError\<close> on \<^verbatim>\<open>null\<close>. \<open>token\<close> is the value \<^verbatim>\<open>uuidv4()\<close> returns.
\<close>

definition getConnect ::
  "(string \<Rightarrow> string) \<Rightarrow> (string \<Rightarrow> string) \<Rightarrow> string \<Rightarrow> redis \<Rightarrow> user list \<Rightarrow> request
     \<Rightarrow> error + (response \<times> redis)" where
  "getConnect sha1 decode token r users req =
     (case getBasicAuthToken decode req of
        None \<Rightarrow> Inl TypeError
      | Some c \<Rightarrow>
          if falsy (cred_email c) \<or> falsy (cred_password c)
          then Inr (Response 401 (ErrorBody ''Unauthorized''), r)
          else (case authenticateUser sha1 users (the (cred_email c)) (the (cred_password c)) of
                  None \<Rightarrow> Inr (Response 401 (ErrorBody ''Unauthorized''), r)
                | Some u \<Rightarrow>
                    (let (tok, r') = generateSessionToken r token (user_id u)
                     in Inr (Response 200 (TokenBody tok), r'))))"

definition getDisconnect :: "redis \<Rightarrow> request \<Rightarrow> response \<times> redis" where
  "getDisconnect r req =
     (case getSessionToken req of
        None \<Rightarrow> (Response 401 (ErrorBody ''Unauthorized''), r)
      | Some token \<Rightarrow>
          (let (result, r') = deleteSessionToken r token
           in if \<not> result then (Response 401 (ErrorBody ''Unauthorized''), r')
              else (Response 204 NoBody, r')))"

section \<open>controllers/UsersController.js\<close>

text \<open>
  \<^verbatim>\<open>postNew\<close> on a body whose \<^verbatim>\<open>email\<close> and \<^verbatim>\<open>password\<close> are texts or absent. The queue
  of welcome jobs is a list, the newest job last; \<open>oid\<close> is the identifier the store
  gives the new document.
\<close>

definition postNew ::
  "(string \<Rightarrow> string) \<Rightarrow> objectId \<Rightarrow> user list \<Rightarrow> objectId list \<Rightarrow> request
     \<Rightarrow> response \<times> user list \<times> objectId list" where
  "postNew sha1 oid users userQueue req =
     (if falsy (body_email req)
      then (Response 400 (ErrorBody ''Missing email''), users, userQueue)
      else if falsy (body_password req)
      then (Response 400 (ErrorBody ''Missing password''), users, userQueue)
      else (case findUserByEmail users (the (body_email req)) of
              Some existingUser \<Rightarrow>
                (Response 400 (ErrorBody ''Already exist''), users, userQueue)
            | None \<Rightarrow>
                (let (newUser, users') =
                       addUser sha1 users oid (the (body_email req)) (the (body_password req))
                 in (Response 201 (UserBody newUser), users', userQueue @ [cu_id newUser]))))"

section \<open>Numbers of the language\<close>

text \<open>
  A number of the language is a binary64 value: not-a-number, an infinity, or a finite
  value, kept as the rational it denotes (both zeros are \<open>Finite 0\<close>; they are equal for
  every comparison made here).
\<close>

datatype jsnum = NaN | Finite rat | PosInfinity | NegInfinity

function bitLength :: "int \<Rightarrow> nat" where
  "bitLength n = (if n \<le> 0 then 0 else Suc (bitLength (n div 2)))"
  by pat_completeness auto
termination
  by (relation "measure nat") auto

definition pow2 :: "int \<Rightarrow> rat" where
  "pow2 k = (if 0 \<le> k then 2 ^ nat k else 1 / 2 ^ nat (- k))"

definition pow10 :: "int \<Rightarrow> rat" where
  "pow10 k = (if 0 \<le> k then 10 ^ nat k else 1 / 10 ^ nat (- k))"

text \<open>For \<open>q > 0\<close>, the exponent \<open>e\<close> with \<open>2^e \<le> q < 2^(e+1)\<close>.\<close>

definition floorLog2 :: "rat \<Rightarrow> int" where
  "floorLog2 q =
     (let (a, b) = quotient_of q;
          k = int (bitLength a) - int (bitLength b)
      in if pow2 k \<le> q then k else k - 1)"

definition roundHalfEven :: "rat \<Rightarrow> int" where
  "roundHalfEven x =
     (let f = \<lfloor>x\<rfloor>; d = x - of_int f
      in if d < 1 / 2 then f
         else if 1 / 2 < d then f + 1
         else if even f then f else f + 1)"

text \<open>
  The binary64 value nearest to a rational, ties to even: 53 significant bits, the least
  exponent \<open>-1022\<close> (below it the spacing stays \<open>2^-1074\<close>), infinity from \<open>2^1024\<close> on.
\<close>

definition roundToDouble :: "rat \<Rightarrow> jsnum" where
  "roundToDouble q =
     (if q = 0 then Finite 0
      else (let a = \<bar>q\<bar>;
                e = max (floorLog2 a) (- 1022);
                ulp = pow2 (e - 52);
                v = of_int (roundHalfEven (a / ulp)) * ulp
            in if pow2 1024 \<le> v then (if q < 0 then NegInfinity else PosInfinity)
               else Finite (if q < 0 then - v else v)))"

definition isStrWhiteSpaceChar :: "char \<Rightarrow> bool" where
  "isStrWhiteSpaceChar c = ((of_char c :: nat) \<in> set [9, 10, 11, 12, 13, 32, 160])"

definition trimWhiteSpace :: "string \<Rightarrow> string" where
  "trimWhiteSpace s =
     rev (dropWhile isStrWhiteSpaceChar (rev (dropWhile isStrWhiteSpaceChar s)))"

definition isDecimalDigit :: "char \<Rightarrow> bool" where
  "isDecimalDigit c = (let n = (of_char c :: nat) in 48 \<le> n \<and> n \<le> 57)"

definition isOctalDigit :: "char \<Rightarrow> bool" where
  "isOctalDigit c = (let n = (of_char c :: nat) in 48 \<le> n \<and> n \<le> 55)"

definition isBinaryDigit :: "char \<Rightarrow> bool" where
  "isBinaryDigit c = (let n = (of_char c :: nat) in 48 \<le> n \<and> n \<le> 49)"

definition digitValue :: "char \<Rightarrow> int" where
  "digitValue c =
     (let n = (of_char c :: int)
      in if n \<le> 57 then n - 48 else if n \<le> 70 then n - 55 else n - 87)"

definition digitsValue :: "int \<Rightarrow> string \<Rightarrow> int" where
  "digitsValue base s = foldl (\<lambda>acc c. acc * base + digitValue c) 0 s"

definition decimalDigits :: "string \<Rightarrow> int option" where
  "decimalDigits s =
     (if s \<noteq> [] \<and> list_all isDecimalDigit s then Some (digitsValue 10 s) else None)"

definition signedInteger :: "string \<Rightarrow> int option" where
  "signedInteger s =
     (case s of
        [] \<Rightarrow> None
      | c # cs \<Rightarrow>
          if c = CHR ''+'' then decimalDigits cs
          else if c = CHR ''-'' then map_option uminus (decimalDigits cs)
          else decimalDigits s)"

text \<open>
  The grammar of numeric texts: \<^verbatim>\<open>Infinity\<close>, or digits with an optional fraction and
  an optional exponent part (at least one digit before or after the point), with the
  exact value of the digits; \<open>NaN\<close> when the text is not of this form.
\<close>

definition strUnsignedDecimalLiteral :: "string \<Rightarrow> jsnum" where
  "strUnsignedDecimalLiteral s =
     (if s = ''Infinity'' then PosInfinity
      else (let isExp = (\<lambda>c. c = CHR ''e'' \<or> c = CHR ''E'');
                m = takeWhile (\<lambda>c. \<not> isExp c) s;
                ex = dropWhile (\<lambda>c. \<not> isExp c) s;
                ip = takeWhile (\<lambda>c. c \<noteq> CHR ''.'') m;
                point = dropWhile (\<lambda>c. c \<noteq> CHR ''.'') m;
                fp = drop 1 point;
                mantissaOk = (list_all isDecimalDigit ip \<and> list_all isDecimalDigit fp
                              \<and> (if point = [] then ip \<noteq> [] else ip \<noteq> [] \<or> fp \<noteq> []));
                exponent = (if ex = [] then Some 0 else signedInteger (drop 1 ex))
            in if \<not> mantissaOk then NaN
               else (case exponent of
                       None \<Rightarrow> NaN
                     | Some k \<Rightarrow>
                         Finite (of_int (digitsValue 10 (ip @ fp)) * pow10 (k - int (length fp))))))"

definition negate_js :: "jsnum \<Rightarrow> jsnum" where
  "negate_js x =
     (case x of NaN \<Rightarrow> NaN | Finite q \<Rightarrow> Finite (- q)
      | PosInfinity \<Rightarrow> NegInfinity | NegInfinity \<Rightarrow> PosInfinity)"

definition strDecimalLiteral :: "string \<Rightarrow> jsnum" where
  "strDecimalLiteral s =
     (case s of
        [] \<Rightarrow> NaN
      | c # cs \<Rightarrow>
          if c = CHR ''+'' then strUnsignedDecimalLiteral cs
          else if c = CHR ''-'' then negate_js (strUnsignedDecimalLiteral cs)
          else strUnsignedDecimalLiteral s)"

definition nonDecimalIntegerLiteral :: "string \<Rightarrow> int option" where
  "nonDecimalIntegerLiteral s =
     (let prefix = take 2 s; ds = drop 2 s
      in if (prefix = ''0x'' \<or> prefix = ''0X'') \<and> ds \<noteq> [] \<and> list_all isHexDigit ds
         then Some (digitsValue 16 ds)
         else if (prefix = ''0o'' \<or> prefix = ''0O'') \<and> ds \<noteq> [] \<and> list_all isOctalDigit ds
         then Some (digitsValue 8 ds)
         else if (prefix = ''0b'' \<or> prefix = ''0B'') \<and> ds \<noteq> [] \<and> list_all isBinaryDigit ds
         then Some (digitsValue 2 ds)
         else None)"

text \<open>\<^verbatim>\<open>Number(text)\<close>: white space around the numeral is dropped, the empty text is 0.\<close>

definition StringToNumber :: "string \<Rightarrow> jsnum" where
  "StringToNumber s =
     (let t = trimWhiteSpace s
      in if t = [] then Finite 0
         else (case (case nonDecimalIntegerLiteral t of
                       Some n \<Rightarrow> Finite (of_int n)
                     | None \<Rightarrow> strDecimalLiteral t) of
                 Finite q \<Rightarrow> roundToDouble q
               | x \<Rightarrow> x))"

text \<open>
  A query parameter is a text or absent (a parameter given several times or with
  brackets, which the framework turns into an array or an object, is outside the model).
  \<^verbatim>\<open>Number(undefined)\<close> is \<open>NaN\<close>; \<^verbatim>\<open>Number.isNaN\<close> does not convert its argument and is
  true of the number \<open>NaN\<close> only, so it is false of every query parameter; in a template
  text \<^verbatim>\<open>undefined\<close> is spelled out.
\<close>

definition Number_js :: "string option \<Rightarrow> jsnum" where
  "Number_js v = (case v of None \<Rightarrow> NaN | Some s \<Rightarrow> StringToNumber s)"

definition Number_isNaN :: "string option \<Rightarrow> bool" where
  "Number_isNaN v = False"

definition String_js :: "string option \<Rightarrow> string" where
  "String_js v = (case v of None \<Rightarrow> ''undefined'' | Some s \<Rightarrow> s)"

section \<open>utils/file.js\<close>

text \<open>
  Modelled from the spec: the constant \<^verbatim>\<open>FOLDER\<close> of the module \<^verbatim>\<open>utils/file\<close>, the kind
  of a folder among the kinds folder, file and image.
\<close>

definition FOLDER :: string where
  "FOLDER = ''folder''"

text \<open>
  Modelled from the spec: \<^verbatim>\<open>FilesCollection.findUserFileById\<close> of the module
  \<^verbatim>\<open>utils/file\<close>, the spec's \<^verbatim>\<open>getOwned(userId, fileId)\<close>. It returns the file only if it
  belongs to the user and otherwise behaves as not found.
\<close>

definition findUserFileById :: "File list \<Rightarrow> objectId \<Rightarrow> string \<Rightarrow> File option" where
  "findUserFileById files uid fid =
     find (\<lambda>f. file_id f = fid \<and> file_userId f = uid) files"

text \<open>
  Modelled from the spec: \<^verbatim>\<open>FilesCollection.updateFilePublication\<close> of the module
  \<^verbatim>\<open>utils/file\<close>, the spec's \<^verbatim>\<open>setPublication(userId, fileId, isPublic)\<close>. It updates the
  visibility only if the caller owns the file and returns the updated record, or fails
  as not found otherwise.
\<close>

fun setPublication :: "File list \<Rightarrow> objectId \<Rightarrow> string \<Rightarrow> bool \<Rightarrow> File list" where
  "setPublication [] uid fid b = []"
| "setPublication (f # fs) uid fid b =
     (if file_id f = fid \<and> file_userId f = uid then f\<lparr>file_isPublic := b\<rparr> # fs
      else f # setPublication fs uid fid b)"

definition updateFilePublication ::
  "File list \<Rightarrow> objectId \<Rightarrow> string \<Rightarrow> bool \<Rightarrow> File option \<times> File list" where
  "updateFilePublication files uid fid b =
     (case findUserFileById files uid fid of
        None \<Rightarrow> (None, files)
      | Some f \<Rightarrow> (Some (f\<lparr>file_isPublic := b\<rparr>), setPublication files uid fid b))"

text \<open>
  Modelled from the spec: \<^verbatim>\<open>FilesCollection.findPublicOrOwnFile\<close> of the module
  \<^verbatim>\<open>utils/file\<close>, the spec's \<^verbatim>\<open>resolveForServing(viewerUserIdOrNone, fileId)\<close>. It returns
  the file if it is public or the viewer owns it.
\<close>

definition findPublicOrOwnFile :: "File list \<Rightarrow> objectId option \<Rightarrow> string \<Rightarrow> File option" where
  "findPublicOrOwnFile files viewer fid =
     find (\<lambda>f. file_id f = fid \<and> (file_isPublic f \<or> viewer = Some (file_userId f))) files"

text \<open>
  Modelled from the spec: \<^verbatim>\<open>FilesCollection.findAllUserFilesByParentId\<close> of the module
  \<^verbatim>\<open>utils/file\<close>, the spec's \<^verbatim>\<open>listChildren(userId, parentId, page, pageSize=20)\<close>. It
  returns the entities owned by the user whose parent matches, in insertion order, from
  the offset \<open>page * pageSize\<close>; a page below 0 or not numeric is treated as 0, and a page
  past the last one is empty. The offset of a fractional page is cut to a whole number.
\<close>

definition pageSize :: nat where
  "pageSize = 20"

definition normalisePage :: "jsnum \<Rightarrow> jsnum" where
  "normalisePage page =
     (case page of
        NaN \<Rightarrow> Finite 0
      | NegInfinity \<Rightarrow> Finite 0
      | Finite q \<Rightarrow> if q < 0 then Finite 0 else Finite q
      | PosInfinity \<Rightarrow> PosInfinity)"

definition findAllUserFilesByParentId ::
  "File list \<Rightarrow> objectId \<Rightarrow> objectId option \<Rightarrow> jsnum \<Rightarrow> File list" where
  "findAllUserFilesByParentId files uid parent page =
     (let children = filter (\<lambda>f. file_userId f = uid \<and> file_parentId f = parent) files
      in case normalisePage page of
           Finite q \<Rightarrow>
             take pageSize (drop (nat \<lfloor>q * of_nat pageSize\<rfloor>) children)
         | _ \<Rightarrow> [])"

section \<open>Blob storage and the job queue\<close>

text \<open>The storage medium maps a path to the bytes of the file there.\<close>

type_synonym disk = "string \<rightharpoonup> string"

definition existsSync :: "disk \<Rightarrow> string option \<Rightarrow> bool" where
  "existsSync d path = (case path of None \<Rightarrow> False | Some p \<Rightarrow> d p \<noteq> None)"

text \<open>\<^verbatim>\<open>readFile\<close> is called on a path that exists only; elsewhere the model reads nothing.\<close>

definition readFile :: "disk \<Rightarrow> string option \<Rightarrow> string" where
  "readFile d path =
     (case path of
        None \<Rightarrow> []
      | Some p \<Rightarrow> (case d p of None \<Rightarrow> [] | Some bytes \<Rightarrow> bytes))"

record job =
  job_userId :: objectId
  job_fileId :: objectId

section \<open>controllers/FilesController.js\<close>

definition unauthorized :: response where
  "unauthorized = Response 401 (ErrorBody ''Unauthorized'')"

definition notFound :: response where
  "notFound = Response 404 (ErrorBody ''Not found'')"

text \<open>
  \<^verbatim>\<open>postUpload\<close>. The constructor of \<^verbatim>\<open>File\<close> and its \<^verbatim>\<open>save\<close> are in the module
  \<^verbatim>\<open>utils/file\<close>; they are the parameter \<open>save\<close>, which takes the owner, the five fields of
  the body and the store, and either raises an error with a message or returns the saved
  file, with the store as it leaves it. The queue of thumbnail jobs is a list, the newest
  job last.
\<close>

definition postUpload ::
  "(objectId \<Rightarrow> string option \<Rightarrow> string option \<Rightarrow> string option \<Rightarrow> bool option
      \<Rightarrow> string option \<Rightarrow> 'store \<Rightarrow> (string + File) \<times> 'store)
   \<Rightarrow> redis \<Rightarrow> user list \<Rightarrow> 'store \<Rightarrow> job list \<Rightarrow> request
   \<Rightarrow> error + (response \<times> 'store \<times> job list)" where
  "postUpload save r users store fileQueue req =
     (case getCurrentUser r users req of
        Inl e \<Rightarrow> Inl e
      | Inr None \<Rightarrow> Inr (unauthorized, store, fileQueue)
      | Inr (Some cu) \<Rightarrow>
          (case save (cu_id cu) (body_name req) (body_type req) (body_parentId req)
                  (body_isPublic req) (body_data req) store of
             (Inl message, store') \<Rightarrow>
               Inr (Response 400 (ErrorBody message), store', fileQueue)
           | (Inr savedFile, store') \<Rightarrow>
               (let fileQueue' =
                      (if file_type savedFile = ''image''
                       then fileQueue @ [\<lparr>job_userId = cu_id cu, job_fileId = file_id savedFile\<rparr>]
                       else fileQueue)
                in Inr (Response 201 (FileBody savedFile), store', fileQueue'))))"

definition getShow :: "redis \<Rightarrow> user list \<Rightarrow> File list \<Rightarrow> request \<Rightarrow> error + response" where
  "getShow r users files req =
     (case getCurrentUser r users req of
        Inl e \<Rightarrow> Inl e
      | Inr None \<Rightarrow> Inr unauthorized
      | Inr (Some cu) \<Rightarrow>
          (case findUserFileById files (cu_id cu) (param_id req) of
             None \<Rightarrow> Inr notFound
           | Some f \<Rightarrow> Inr (Response 200 (FileBody f))))"

definition getIndex :: "redis \<Rightarrow> user list \<Rightarrow> File list \<Rightarrow> request \<Rightarrow> error + response" where
  "getIndex r users files req =
     (case getCurrentUser r users req of
        Inl e \<Rightarrow> Inl e
      | Inr None \<Rightarrow> Inr unauthorized
      | Inr (Some cu) \<Rightarrow>
          (let parent = (if query_parentId req = Some ''0'' \<or> falsy (query_parentId req)
                         then None else query_parentId req);
               page = (if Number_isNaN (query_page req) then Finite 0
                       else Number_js (query_page req));
               found = findAllUserFilesByParentId files (cu_id cu) parent page
           in Inr (Response 200 (FilesBody found))))"

definition updatePublication ::
  "redis \<Rightarrow> user list \<Rightarrow> File list \<Rightarrow> request \<Rightarrow> bool \<Rightarrow> error + (response \<times> File list)" where
  "updatePublication r users files req isPublished =
     (case getCurrentUser r users req of
        Inl e \<Rightarrow> Inl e
      | Inr None \<Rightarrow> Inr (unauthorized, files)
      | Inr (Some cu) \<Rightarrow>
          (case updateFilePublication files (cu_id cu) (param_id req) isPublished of
             (None, files') \<Rightarrow> Inr (notFound, files')
           | (Some f, files') \<Rightarrow> Inr (Response 200 (FileBody f), files')))"

definition putPublish ::
  "redis \<Rightarrow> user list \<Rightarrow> File list \<Rightarrow> request \<Rightarrow> error + (response \<times> File list)" where
  "putPublish r users files req = updatePublication r users files req True"

definition putUnpublish ::
  "redis \<Rightarrow> user list \<Rightarrow> File list \<Rightarrow> request \<Rightarrow> error + (response \<times> File list)" where
  "putUnpublish r users files req = updatePublication r users files req False"

text \<open>
  \<^verbatim>\<open>getFile\<close>. \<open>mime\<close> stands for \<^verbatim>\<open>mime.lookup\<close>. The name of the variant is built from the
  text of the \<^verbatim>\<open>size\<close> parameter as the request gives it.
\<close>

definition getFile ::
  "(string \<Rightarrow> string option) \<Rightarrow> redis \<Rightarrow> user list \<Rightarrow> File list \<Rightarrow> disk \<Rightarrow> request
     \<Rightarrow> error + response" where
  "getFile mime r users files d req =
     (case getCurrentUser r users req of
        Inl e \<Rightarrow> Inl e
      | Inr currentUser \<Rightarrow>
          (let size = query_size req in
           case findPublicOrOwnFile files
                  (case currentUser of Some cu \<Rightarrow> Some (cu_id cu) | None \<Rightarrow> None)
                  (param_id req) of
             None \<Rightarrow> Inr notFound
           | Some f \<Rightarrow>
               if file_type f = FOLDER
               then Inr (Response 400 (ErrorBody ''A folder doesn't have content''))
               else (let filePath =
                           (if \<not> Number_isNaN size
                               \<and> Number_js size \<in> set [Finite 500, Finite 250, Finite 100]
                            then Some (String_js (file_localPath f) @ ''_'' @ String_js size)
                            else file_localPath f)
                     in if \<not> existsSync d filePath then Inr notFound
                        else Inr (Response 200
                                    (DataBody (mime (file_name f)) (readFile d filePath))))))"

section \<open>A small installation\<close>

text \<open>
  Two registered users, one of them with an open session, a folder, an image inside it
  with its 250-pixel variant on the medium, and a private text file of the other user.
\<close>

definition bob :: user where
  "bob = \<lparr>user_id = ''5f1e7d35c7ba06511e683b21'', email = ''bob@dylan.com'',
          password = ''89cad29e3ebc1035b29b1478a8e70854f25fa2b2''\<rparr>"

definition alice :: user where
  "alice = \<lparr>user_id = ''5f1e7d35c7ba06511e683b22'', email = ''alice@wonder.land'',
            password = ''0beec7b5ea3f0fdbc95d0dd47f3c5bc275da8a33''\<rparr>"

definition sessions :: redis where
  "sessions = [''auth_031bffac-3edc-4e51-aaae-1c121317da8a'' \<mapsto> ''5f1e7d35c7ba06511e683b21'']"

definition images :: File where
  "images = \<lparr>file_id = ''5f1e881cc7ba06511e683b23'', file_userId = ''5f1e7d35c7ba06511e683b21'',
             file_name = ''images'', file_type = ''folder'', file_isPublic = False,
             file_parentId = None, file_localPath = None\<rparr>"

definition logo :: File where
  "logo = \<lparr>file_id = ''5f1e8896c7ba06511e683b25'', file_userId = ''5f1e7d35c7ba06511e683b21'',
           file_name = ''image.png'', file_type = ''image'', file_isPublic = True,
           file_parentId = Some ''5f1e881cc7ba06511e683b23'',
           file_localPath = Some ''/tmp/files_manager/51997b88-5c42-42c2-901e-e7f4e71bdc47''\<rparr>"

definition myText :: File where
  "myText = \<lparr>file_id = ''5f1e879ec7ba06511e683b22'', file_userId = ''5f1e7d35c7ba06511e683b22'',
             file_name = ''myText.txt'', file_type = ''file'', file_isPublic = False,
            file_parentId = None,
            file_localPath = Some ''/tmp/files_manager/2a1f4fc3-687b-491a-a3d2-5808a02942c9''\<rparr>"

definition medium :: disk where
  "medium = [''/tmp/files_manager/51997b88-5c42-42c2-901e-e7f4e71bdc47'' \<mapsto> ''PNG'',
             ''/tmp/files_manager/51997b88-5c42-42c2-901e-e7f4e71bdc47_250'' \<mapsto> ''png250'',
             ''/tmp/files_manager/2a1f4fc3-687b-491a-a3d2-5808a02942c9'' \<mapsto> ''Hello Webstack!'']"

text \<open>A request with nothing in it, and the same request carrying the session token.\<close>

definition bare :: request where
  "bare = \<lparr>authorization = None, x_token = None, param_id = [], query_parentId = None,
           query_page = None, query_size = None, body_email = None, body_password = None,
           body_name = None, body_type = None, body_parentId = None, body_isPublic = None,
           body_data = None\<rparr>"

definition asBob :: request where
  "asBob = bare\<lparr>x_token := Some ''031bffac-3edc-4e51-aaae-1c121317da8a''\<rparr>"

text \<open>
  Stand-ins for the library functions in the examples. \<open>base64_decode\<close> decodes a text of
  the base64 alphabet with its padding; \<open>digest\<close> gives the two passwords of the
  installation their SHA-1 digests and leaves every other text as it is; \<open>keep\<close> is a save
  that refuses a body without a name and otherwise stores a document of the given name
  and kind under a fixed identifier.
\<close>

definition base64Index :: "char \<Rightarrow> nat option" where
  "base64Index c =
     (let n = (of_char c :: nat)
      in if 65 \<le> n \<and> n \<le> 90 then Some (n - 65)
         else if 97 \<le> n \<and> n \<le> 122 then Some (n - 71)
         else if 48 \<le> n \<and> n \<le> 57 then Some (n + 4)
         else if n = 43 then Some 62
         else if n = 47 then Some 63
         else None)"

fun base64Bytes :: "nat list \<Rightarrow> string" where
  "base64Bytes (a # b # c # d # rest) =
     char_of (a * 4 + b div 16) # char_of ((b mod 16) * 16 + c div 4)
       # char_of ((c mod 4) * 64 + d) # base64Bytes rest"
| "base64Bytes [a, b, c] = [char_of (a * 4 + b div 16), char_of ((b mod 16) * 16 + c div 4)]"
| "base64Bytes [a, b] = [char_of (a * 4 + b div 16)]"
| "base64Bytes [a] = []"
| "base64Bytes [] = []"

definition base64_decode :: "string \<Rightarrow> string" where
  "base64_decode s =
     base64Bytes (List.map_filter base64Index (takeWhile (\<lambda>c. c \<noteq> CHR ''='') s))"

definition digest :: "string \<Rightarrow> string" where
  "digest p =
     (if p = ''toto1234!'' then ''89cad29e3ebc1035b29b1478a8e70854f25fa2b2''
      else if p = ''foo'' then ''0beec7b5ea3f0fdbc95d0dd47f3c5bc275da8a33''
      else p)"

definition keep ::
  "objectId \<Rightarrow> string option \<Rightarrow> string option \<Rightarrow> string option \<Rightarrow> bool option
     \<Rightarrow> string option \<Rightarrow> File list \<Rightarrow> (string + File) \<times> File list" where
  "keep owner nm kind parent pub content store =
     (case nm of
        None \<Rightarrow> (Inl ''Missing name'', store)
      | Some n \<Rightarrow>
          (let doc = \<lparr>file_id = ''5f1e8896c7ba06511e683b26'', file_userId = owner,
                      file_name = n, file_type = String_js kind,
                      file_isPublic = (pub = Some True), file_parentId = parent,
                      file_localPath = None\<rparr>
           in (Inr doc, store @ [doc])))"

section \<open>Properties\<close>

subsection \<open>Session store\<close>

lemma ObjectId_canonical: "isObjectIdHex s \<Longrightarrow> ObjectId s = Inr s"
proof -
  assume h: "isObjectIdHex s"
  have a: "list_all isHexDigit s"
    using h by (simp add: isObjectIdHex_def isHexDigit_def list_all_iff)
  have "\<And>c. isLowerHexDigit c \<Longrightarrow> toLowerHex c = c"
    by (auto simp: isLowerHexDigit_def isUpperHexLetter_def toLowerHex_def Let_def)
  then have b: "map toLowerHex s = s"
    using h by (auto simp: isObjectIdHex_def list_all_iff intro!: map_idI)
  show ?thesis using h a b by (simp add: ObjectId_def isObjectIdHex_def)
qed

text \<open>
  C3. A token issued for a user resolves to that user: the cache holds the user's
  identifier under the token's key, and \<^verbatim>\<open>getUserFromSession\<close> returns the user with that
  identifier. Revoking the token answers true and removes the key, after which the token
  resolves to nothing and a second revocation answers false and changes nothing. In a
  cache whose entry for the key is not the empty text (identifiers are 24 characters
  long), revocation answers true exactly when the key exists.
\<close>

theorem session_issue_resolve_revoke:
  assumes uid: "isObjectIdHex userId"
    and u: "find (\<lambda>u. user_id u = userId) users = Some u"
    and r0: "redis_get r0 (''auth_'' @ t) \<noteq> Some []"
  shows "(let (tok, r1) = generateSessionToken r token userId;
              (b1, r2) = deleteSessionToken r1 tok;
              (b2, r3) = deleteSessionToken r2 tok
          in tok = token \<and> redis_get r1 (''auth_'' @ tok) = Some userId
             \<and> getUserFromSession r1 users tok
                 = Inr (Some \<lparr>cu_email = email u, cu_id = userId\<rparr>)
             \<and> b1 \<and> redis_get r2 (''auth_'' @ tok) = None
             \<and> getUserFromSession r2 users tok = Inr None
             \<and> \<not> b2 \<and> r3 = r2)
         \<and> (fst (deleteSessionToken r0 t) \<longleftrightarrow> redis_get r0 (''auth_'' @ t) \<noteq> None)"
proof -
  have ne: "userId \<noteq> []" using uid by (auto simp: isObjectIdHex_def)
  have idu: "user_id u = userId" using u by (auto dest: find_Some_iff[THEN iffD1])
  have f: "findUserById users userId = Inr (Some u)"
    using u by (simp add: findUserById_def ObjectId_canonical[OF uid])
  have 1: "fst (deleteSessionToken r0 t) \<longleftrightarrow> redis_get r0 (''auth_'' @ t) \<noteq> None"
    using r0 by (auto simp: deleteSessionToken_def split: option.splits)
  show ?thesis
    using ne f idu 1
    by (simp add: generateSessionToken_def deleteSessionToken_def getUserFromSession_def
        redis_get_def redis_set_def redis_del_def Let_def)
qed

theorem session_issue_resolve_revoke_witness:
  "isObjectIdHex ''5f1b2c3d4e5f6a7b8c9d0e1f''
   \<and> find (\<lambda>u. user_id u = ''5f1b2c3d4e5f6a7b8c9d0e1f'')
        [\<lparr>user_id = ''5f1b2c3d4e5f6a7b8c9d0e1f'', email = ''bob@dylan.com'', password = ''89cad29e''\<rparr>]
      = Some \<lparr>user_id = ''5f1b2c3d4e5f6a7b8c9d0e1f'', email = ''bob@dylan.com'', password = ''89cad29e''\<rparr>
   \<and> redis_get Map.empty (''auth_'' @ ''t1'') \<noteq> Some []
   \<and> getUserFromSession (snd (generateSessionToken Map.empty ''155342df'' ''5f1b2c3d4e5f6a7b8c9d0e1f''))
        [\<lparr>user_id = ''5f1b2c3d4e5f6a7b8c9d0e1f'', email = ''bob@dylan.com'', password = ''89cad29e''\<rparr>]
        ''155342df''
      = Inr (Some \<lparr>cu_email = ''bob@dylan.com'', cu_id = ''5f1b2c3d4e5f6a7b8c9d0e1f''\<rparr>)
   \<and> \<not> fst (deleteSessionToken Map.empty ''t1'')"
proof -
  have a: "isObjectIdHex ''5f1b2c3d4e5f6a7b8c9d0e1f''"
    by (simp add: isObjectIdHex_def isLowerHexDigit_def)
  have b: "find (\<lambda>u. user_id u = ''5f1b2c3d4e5f6a7b8c9d0e1f'')
        [\<lparr>user_id = ''5f1b2c3d4e5f6a7b8c9d0e1f'', email = ''bob@dylan.com'', password = ''89cad29e''\<rparr>]
      = Some \<lparr>user_id = ''5f1b2c3d4e5f6a7b8c9d0e1f'', email = ''bob@dylan.com'', password = ''89cad29e''\<rparr>"
    by simp
  have c: "redis_get Map.empty (''auth_'' @ ''t1'') \<noteq> Some []"
    by (simp add: redis_get_def)
  from session_issue_resolve_revoke [OF a b c, of Map.empty "''155342df''"]
  show ?thesis using a b c
    by (simp add: generateSessionToken_def Let_def split_def redis_get_def)
qed

subsection \<open>Credentials and authentication\<close>

lemma split_js_not_Nil: "split_js sep s \<noteq> []"
  by (induction s) (auto split: list.splits)

lemma split_js_pieces: "w \<in> set (split_js sep s) \<Longrightarrow> sep \<notin> set w"
proof (induction s arbitrary: w)
  case Nil
  then show ?case by simp
next
  case (Cons c cs)
  then show ?case
    by (cases "split_js sep cs") (auto split: if_splits)
qed

lemma split_js_no_sep: "sep \<notin> set s \<Longrightarrow> split_js sep s = [s]"
  by (induction s) auto

lemma split_js_append:
  "sep \<notin> set a \<Longrightarrow> split_js sep (a @ sep # rest) = a # split_js sep rest"
  by (induction a) auto

lemma nth_js_in_set: "nth_js xs i = Some x \<Longrightarrow> x \<in> set xs"
  by (auto simp: nth_js_def split: if_splits)

lemma getBasicAuthToken_password_no_colon:
  assumes "getBasicAuthToken decode req = Some c" and "cred_password c = Some p"
  shows "CHR '':'' \<notin> set p"
  using assms
  by (auto simp: getBasicAuthToken_def Let_def split: option.splits if_splits
      dest!: nth_js_in_set split_js_pieces)

lemma getBasicAuthToken_segments:
  assumes "authorization req = Some (scheme @ CHR '' '' # token)"
    and "CHR '' '' \<notin> set scheme" and "CHR '' '' \<notin> set token" and "token \<noteq> []"
    and "decode token = e @ CHR '':'' # p @ CHR '':'' # rest"
    and "CHR '':'' \<notin> set e" and "CHR '':'' \<notin> set p"
  shows "getBasicAuthToken decode req = Some \<lparr>cred_email = Some e, cred_password = Some p\<rparr>"
proof -
  have 1: "split_js CHR '' '' (scheme @ CHR '' '' # token) = [scheme, token]"
    using assms(2,3) by (simp add: split_js_append split_js_no_sep)
  obtain ws where 2: "split_js CHR '':'' (decode token) = e # p # ws"
    using assms(5,6,7) by (simp add: split_js_append)
  show ?thesis
    using assms(1,4) 1 2 by (simp add: getBasicAuthToken_def nth_js_def Let_def)
qed

lemma getBasicAuthToken_null:
  "authorization req = None \<Longrightarrow> getBasicAuthToken decode req = None"
  "authorization req = Some h \<Longrightarrow> CHR '' '' \<notin> set h \<Longrightarrow> getBasicAuthToken decode req = None"
  by (auto simp: getBasicAuthToken_def split_js_no_sep nth_js_def)

lemma find_append_new:
  "find P xs = None \<Longrightarrow> P x \<Longrightarrow> find P (xs @ [x]) = Some x"
  by (induction xs) (auto split: if_splits)

text \<open>
  C4. After an email that was not registered is registered with a password,
  \<^verbatim>\<open>authenticateUser\<close> with that email and password returns the new user, and it returns
  nothing for every password whose hash differs from the registered one. A request
  whose email is unknown and a request whose password is wrong get nothing from
  \<^verbatim>\<open>authenticateUser\<close> and the same answer from \<^verbatim>\<open>getConnect\<close>: status 401 with the message
  Unauthorized, the cache untouched.
\<close>

theorem authenticate_registered_once:
  assumes fresh: "findUserByEmail users e = None"
    and c1: "getBasicAuthToken decode req1 = Some \<lparr>cred_email = Some e1, cred_password = Some p1\<rparr>"
    and unknown: "findUserByEmail users' e1 = None"
    and c2: "getBasicAuthToken decode req2 = Some \<lparr>cred_email = Some e2, cred_password = Some p2\<rparr>"
    and known: "findUserByEmail users' e2 = Some u"
    and wrong: "password u \<noteq> hash p2"
  shows "(let (newUser, users1) = addUser hash users oid e p
          in newUser = \<lparr>cu_email = e, cu_id = oid\<rparr>
             \<and> authenticateUser hash users1 e p
                 = Some \<lparr>user_id = oid, email = e, password = hash p\<rparr>
             \<and> (\<forall>p'. hash p' \<noteq> hash p \<longrightarrow> authenticateUser hash users1 e p' = None))
         \<and> authenticateUser hash users' e1 p1 = None
         \<and> authenticateUser hash users' e2 p2 = None
         \<and> getConnect hash decode token r users' req1
             = Inr (Response 401 (ErrorBody ''Unauthorized''), r)
         \<and> getConnect hash decode token r users' req2
             = getConnect hash decode token r users' req1"
proof -
  let ?doc = "\<lparr>user_id = oid, email = e, password = hash p\<rparr>"
  have f: "findUserByEmail (users @ [?doc]) e = Some ?doc"
    using fresh by (simp add: findUserByEmail_def find_append_new)
  have a: "authenticateUser hash users' e1 p1 = None"
    using unknown by (simp add: authenticateUser_def)
  have b: "authenticateUser hash users' e2 p2 = None"
    using known wrong by (simp add: authenticateUser_def)
  have g1: "getConnect hash decode token r users' req1
             = Inr (Response 401 (ErrorBody ''Unauthorized''), r)"
    using c1 a by (simp add: getConnect_def)
  have g2: "getConnect hash decode token r users' req2
             = Inr (Response 401 (ErrorBody ''Unauthorized''), r)"
    using c2 b by (simp add: getConnect_def)
  show ?thesis
    using f a b g1 g2 by (simp add: addUser_def authenticateUser_def Let_def)
qed

theorem authenticate_registered_once_witness:
  "findUserByEmail [alice] ''bob@dylan.com'' = None
   \<and> getBasicAuthToken base64_decode
         (bare\<lparr>authorization := Some ''Basic Ym9iQGR5bGFuLmNvbTp0b3RvMTIzNCE=''\<rparr>)
       = Some \<lparr>cred_email = Some ''bob@dylan.com'', cred_password = Some ''toto1234!''\<rparr>
   \<and> getBasicAuthToken base64_decode
         (bare\<lparr>authorization := Some ''Basic YWxpY2VAd29uZGVyLmxhbmQ6d3Jvbmc=''\<rparr>)
       = Some \<lparr>cred_email = Some ''alice@wonder.land'', cred_password = Some ''wrong''\<rparr>
   \<and> findUserByEmail [alice] ''alice@wonder.land'' = Some alice
   \<and> password alice \<noteq> digest ''wrong''
   \<and> authenticateUser digest
         (snd (addUser digest [alice] ''5f1e7d35c7ba06511e683b21'' ''bob@dylan.com'' ''toto1234!''))
         ''bob@dylan.com'' ''toto1234!'' = Some bob
   \<and> authenticateUser digest
         (snd (addUser digest [alice] ''5f1e7d35c7ba06511e683b21'' ''bob@dylan.com'' ''toto1234!''))
         ''bob@dylan.com'' ''foo'' = None
   \<and> getConnect digest base64_decode ''031bffac-3edc-4e51-aaae-1c121317da8a'' Map.empty [alice]
         (bare\<lparr>authorization := Some ''Basic Ym9iQGR5bGFuLmNvbTp0b3RvMTIzNCE=''\<rparr>)
       = Inr (Response 401 (ErrorBody ''Unauthorized''), Map.empty)
   \<and> getConnect digest base64_decode ''031bffac-3edc-4e51-aaae-1c121317da8a'' Map.empty [alice]
         (bare\<lparr>authorization := Some ''Basic YWxpY2VAd29uZGVyLmxhbmQ6d3Jvbmc=''\<rparr>)
       = Inr (Response 401 (ErrorBody ''Unauthorized''), Map.empty)"
proof -
  let ?req1 = "bare\<lparr>authorization := Some ''Basic Ym9iQGR5bGFuLmNvbTp0b3RvMTIzNCE=''\<rparr>"
  let ?req2 = "bare\<lparr>authorization := Some ''Basic YWxpY2VAd29uZGVyLmxhbmQ6d3Jvbmc=''\<rparr>"
  have a: "findUserByEmail [alice] ''bob@dylan.com'' = None"
    by (simp add: findUserByEmail_def alice_def)
  have b: "getBasicAuthToken base64_decode ?req1
       = Some \<lparr>cred_email = Some ''bob@dylan.com'', cred_password = Some ''toto1234!''\<rparr>"
    by code_simp
  have c: "getBasicAuthToken base64_decode ?req2
       = Some \<lparr>cred_email = Some ''alice@wonder.land'', cred_password = Some ''wrong''\<rparr>"
    by code_simp
  have d: "findUserByEmail [alice] ''alice@wonder.land'' = Some alice"
    by (simp add: findUserByEmail_def alice_def)
  have e: "password alice \<noteq> digest ''wrong''"
    by (simp add: alice_def digest_def)
  have f: "digest ''foo'' \<noteq> digest ''toto1234!''"
    by (simp add: digest_def)
  from authenticate_registered_once [where hash = digest and decode = base64_decode
      and oid = "''5f1e7d35c7ba06511e683b21''" and p = "''toto1234!''"
      and token = "''031bffac-3edc-4e51-aaae-1c121317da8a''" and r = Map.empty, OF a b a c d e]
  show ?thesis using a b c d e f
    by (simp add: addUser_def Let_def bob_def digest_def)
qed

text \<open>
  Of a decoded credential with several colons only the text between the first and the
  second is the password (see the lemmas above), so a session for a user whose
  registered password contains a colon is opened only by a different text with the same
  hash.
\<close>

lemma colon_password_needs_collision:
  assumes colon: "CHR '':'' \<in> set p"
    and registered: "findUserByEmail users e = Some u" "password u = sha1 p"
    and creds: "getBasicAuthToken decode req = Some c" "cred_email c = Some e"
    and connected: "getConnect sha1 decode token r users req = Inr (Response 200 b, r')"
  shows "\<exists>p'. cred_password c = Some p' \<and> p' \<noteq> p \<and> sha1 p' = sha1 p"
proof -
  obtain p' where p': "cred_password c = Some p'"
    using connected creds by (cases "cred_password c") (auto simp: getConnect_def falsy_def)
  have "CHR '':'' \<notin> set p'"
    using creds(1) p' by (rule getBasicAuthToken_password_no_colon)
  then have ne: "p' \<noteq> p" using colon by auto
  have "sha1 p' = sha1 p"
    using connected creds p' registered
    by (auto simp: getConnect_def authenticateUser_def Let_def split: if_splits option.splits)
  then show ?thesis using p' ne by simp
qed

text \<open>
  C10. A request without an Authorization header, or with a header that has no second
  part, makes \<^verbatim>\<open>getBasicAuthToken\<close> return \<^verbatim>\<open>null\<close>; \<^verbatim>\<open>getConnect\<close> then takes the fields of
  \<^verbatim>\<open>null\<close> apart and raises a \<^verbatim>\<open>TypeError\<close> instead of answering 401.
\<close>

theorem getConnect_without_credentials_raises:
  "getConnect sha1 decode token r users bare = Inl TypeError
   \<and> getConnect sha1 decode token r users (bare\<lparr>authorization := Some ''Basic''\<rparr>)
       = Inl TypeError"
  by (simp add: getConnect_def getBasicAuthToken_def bare_def nth_js_def)

subsection \<open>Registration\<close>

text \<open>
  C8. Registering an email twice: the first call answers 201 and stores the user, the
  second answers 400 with the message Already exist and leaves the users and the queue
  as they were; so does every registration of an email that some user of the store has.
  In every store, a body without an email is refused with Missing email whatever its
  password is, and a body with an email and without a password with Missing password.
\<close>

theorem postNew_checks:
  assumes e: "e \<noteq> []" and p: "p \<noteq> []" and p2: "p2 \<noteq> []"
    and fresh: "findUserByEmail users e = None"
    and known: "findUserByEmail us e = Some u"
    and b1: "body_email req1 = Some e" "body_password req1 = Some p"
    and b2: "body_email req2 = Some e" "body_password req2 = Some p2"
    and m1: "falsy (body_email req3)"
    and m2: "\<not> falsy (body_email req4)" "falsy (body_password req4)"
  shows "(let (resp1, users1, q1) = postNew sha1 oid1 users q req1;
              (resp2, users2, q2) = postNew sha1 oid2 users1 q1 req2
          in resp1 = Response 201 (UserBody \<lparr>cu_email = e, cu_id = oid1\<rparr>)
             \<and> users1 = users @ [\<lparr>user_id = oid1, email = e, password = sha1 p\<rparr>]
             \<and> resp2 = Response 400 (ErrorBody ''Already exist'')
             \<and> users2 = users1 \<and> q2 = q1)
         \<and> postNew sha1 oid3 us q req2 = (Response 400 (ErrorBody ''Already exist''), us, q)
         \<and> postNew sha1 oid3 st q req3 = (Response 400 (ErrorBody ''Missing email''), st, q)
         \<and> postNew sha1 oid3 st q req4 = (Response 400 (ErrorBody ''Missing password''), st, q)"
proof -
  let ?doc = "\<lparr>user_id = oid1, email = e, password = sha1 p\<rparr>"
  have f: "findUserByEmail (users @ [?doc]) e = Some ?doc"
    using fresh by (simp add: findUserByEmail_def find_append_new)
  have 1: "postNew sha1 oid1 users q req1
            = (Response 201 (UserBody \<lparr>cu_email = e, cu_id = oid1\<rparr>), users @ [?doc], q @ [oid1])"
    using e p fresh b1 by (simp add: postNew_def falsy_def addUser_def Let_def)
  have 2: "postNew sha1 oid2 (users @ [?doc]) (q @ [oid1]) req2
            = (Response 400 (ErrorBody ''Already exist''), users @ [?doc], q @ [oid1])"
    using e p2 f b2 by (simp add: postNew_def falsy_def)
  have 3: "postNew sha1 oid3 st q req3 = (Response 400 (ErrorBody ''Missing email''), st, q)"
    using m1 by (simp add: postNew_def)
  have 4: "postNew sha1 oid3 st q req4 = (Response 400 (ErrorBody ''Missing password''), st, q)"
    using m2 by (simp add: postNew_def)
  have 5: "postNew sha1 oid3 us q req2 = (Response 400 (ErrorBody ''Already exist''), us, q)"
    using e p2 known b2 by (simp add: postNew_def falsy_def)
  show ?thesis using 1 2 3 4 5 by simp
qed

theorem postNew_checks_witness:
  "findUserByEmail [alice] ''bob@dylan.com'' = None
   \<and> findUserByEmail [alice, bob] ''bob@dylan.com'' = Some bob
   \<and> falsy (body_email (bare\<lparr>body_password := Some ''toto1234!''\<rparr>))
   \<and> \<not> falsy (body_email (bare\<lparr>body_email := Some ''bob@dylan.com''\<rparr>))
   \<and> falsy (body_password (bare\<lparr>body_email := Some ''bob@dylan.com''\<rparr>))
   \<and> postNew digest ''5f1e7d35c7ba06511e683b21'' [alice] []
         (bare\<lparr>body_email := Some ''bob@dylan.com'', body_password := Some ''toto1234!''\<rparr>)
       = (Response 201 (UserBody \<lparr>cu_email = ''bob@dylan.com'', cu_id = ''5f1e7d35c7ba06511e683b21''\<rparr>),
          [alice, bob], [''5f1e7d35c7ba06511e683b21''])
   \<and> postNew digest ''5f1e7d35c7ba06511e683b29'' [alice, bob] [''5f1e7d35c7ba06511e683b21'']
         (bare\<lparr>body_email := Some ''bob@dylan.com'', body_password := Some ''foo''\<rparr>)
       = (Response 400 (ErrorBody ''Already exist''), [alice, bob], [''5f1e7d35c7ba06511e683b21''])
   \<and> postNew digest ''5f1e7d35c7ba06511e683b29'' [alice, bob] []
         (bare\<lparr>body_password := Some ''toto1234!''\<rparr>)
       = (Response 400 (ErrorBody ''Missing email''), [alice, bob], [])
   \<and> postNew digest ''5f1e7d35c7ba06511e683b29'' [alice, bob] []
         (bare\<lparr>body_email := Some ''bob@dylan.com''\<rparr>)
       = (Response 400 (ErrorBody ''Missing password''), [alice, bob], [])"
proof -
  let ?req1 = "bare\<lparr>body_email := Some ''bob@dylan.com'', body_password := Some ''toto1234!''\<rparr>"
  let ?req2 = "bare\<lparr>body_email := Some ''bob@dylan.com'', body_password := Some ''foo''\<rparr>"
  let ?req3 = "bare\<lparr>body_password := Some ''toto1234!''\<rparr>"
  let ?req4 = "bare\<lparr>body_email := Some ''bob@dylan.com''\<rparr>"
  have e: "''bob@dylan.com'' \<noteq> []" and p: "''toto1234!'' \<noteq> []" and p2: "''foo'' \<noteq> []"
    by simp_all
  have fresh: "findUserByEmail [alice] ''bob@dylan.com'' = None"
    by (simp add: findUserByEmail_def alice_def)
  have known: "findUserByEmail [alice, bob] ''bob@dylan.com'' = Some bob"
    by (simp add: findUserByEmail_def alice_def bob_def)
  have b1: "body_email ?req1 = Some ''bob@dylan.com''" "body_password ?req1 = Some ''toto1234!''"
    by simp_all
  have b2: "body_email ?req2 = Some ''bob@dylan.com''" "body_password ?req2 = Some ''foo''"
    by simp_all
  have m1: "falsy (body_email ?req3)"
    by (simp add: falsy_def bare_def)
  have m2: "\<not> falsy (body_email ?req4)" "falsy (body_password ?req4)"
    by (simp_all add: falsy_def bare_def)
  from postNew_checks [OF e p p2 fresh known b1 b2 m1 m2,
      of digest "''5f1e7d35c7ba06511e683b21''" "[]" "''5f1e7d35c7ba06511e683b29''"
         "''5f1e7d35c7ba06511e683b29''" "[alice, bob]"]
  show ?thesis using fresh known m1 m2
    by (simp add: postNew_def falsy_def addUser_def findUserByEmail_def alice_def bob_def
        digest_def bare_def Let_def)
qed

subsection \<open>Listing\<close>

lemma getCurrentUser_query_page [simp]:
  "getCurrentUser r users (req\<lparr>query_page := v\<rparr>) = getCurrentUser r users req"
  by (simp add: getCurrentUser_def getSessionToken_def)

lemma Number_js_zero: "Number_js (Some ''0'') = Finite 0"
  by code_simp

lemma getIndex_same_page:
  assumes "normalisePage (Number_js v) = normalisePage (Number_js w)"
  shows "getIndex r users files (req\<lparr>query_page := v\<rparr>)
           = getIndex r users files (req\<lparr>query_page := w\<rparr>)"
  using assms
  by (simp add: getIndex_def Number_isNaN_def findAllUserFilesByParentId_def Let_def
      split: sum.splits option.splits)

text \<open>
  \<^verbatim>\<open>getIndex\<close> itself does not turn a page that is not numeric into 0: its test
  \<^verbatim>\<open>Number.isNaN(page)\<close> is false of a text, so the listing receives \<open>NaN\<close>, and it is the
  listing that treats it as page 0.
\<close>

lemma getIndex_hands_over_NaN:
  "(if Number_isNaN (Some ''abc'') then Finite 0 else Number_js (Some ''abc'')) = NaN"
  by code_simp

text \<open>
  C1. A listing request whose page is a text that is not numeric, a text for a number
  below 0, or absent, is answered as the request with page 0. For an authenticated
  caller and a page that is a natural number \<open>n\<close>, the answer is 200 with at most 20 files:
  those of the caller under the requested parent, in insertion order, from offset
  \<open>n * 20\<close>.
\<close>

theorem getIndex_page:
  assumes auth: "getCurrentUser r users req = Inr (Some cu)"
    and nonnum: "Number_js (Some s) = NaN"
    and neg: "Number_js (Some t) = Finite q" "q < 0"
    and pg: "Number_js (query_page req) = Finite (of_nat n)"
  shows "getIndex r users files (req\<lparr>query_page := Some s\<rparr>)
           = getIndex r users files (req\<lparr>query_page := Some ''0''\<rparr>)
         \<and> getIndex r users files (req\<lparr>query_page := Some t\<rparr>)
           = getIndex r users files (req\<lparr>query_page := Some ''0''\<rparr>)
         \<and> getIndex r users files (req\<lparr>query_page := None\<rparr>)
           = getIndex r users files (req\<lparr>query_page := Some ''0''\<rparr>)
         \<and> getIndex r users files req
           = Inr (Response 200 (FilesBody
               (take 20 (drop (n * 20)
                  (filter (\<lambda>f. file_userId f = cu_id cu
                             \<and> file_parentId f
                                 = (if query_parentId req = Some ''0'' \<or> falsy (query_parentId req)
                                    then None else query_parentId req))
                     files)))))"
proof -
  have z: "normalisePage (Number_js (Some ''0'')) = Finite 0"
    by (simp add: Number_js_zero normalisePage_def)
  have 1: "normalisePage (Number_js (Some s)) = Finite 0"
    using nonnum by (simp add: normalisePage_def)
  have 2: "normalisePage (Number_js (Some t)) = Finite 0"
    using neg by (simp add: normalisePage_def)
  have 3: "normalisePage (Number_js None) = Finite 0"
    by (simp add: normalisePage_def Number_js_def)
  have fl: "nat \<lfloor>(of_nat n :: rat) * of_nat pageSize\<rfloor> = n * 20"
  proof -
    have "(of_nat n :: rat) * of_nat pageSize = of_nat (n * 20)"
      by (simp add: pageSize_def)
    then show ?thesis by (simp only: floor_of_nat nat_int)
  qed
  have 4: "getIndex r users files req
           = Inr (Response 200 (FilesBody
               (take 20 (drop (n * 20)
                  (filter (\<lambda>f. file_userId f = cu_id cu
                             \<and> file_parentId f
                                 = (if query_parentId req = Some ''0'' \<or> falsy (query_parentId req)
                                    then None else query_parentId req))
                     files)))))"
    using auth pg fl
    by (simp add: getIndex_def Number_isNaN_def findAllUserFilesByParentId_def Let_def
        normalisePage_def pageSize_def)
  show ?thesis
    using getIndex_same_page [of "Some s" "Some ''0''"] getIndex_same_page [of "Some t" "Some ''0''"]
      getIndex_same_page [of None "Some ''0''"] z 1 2 3 4
    by simp
qed

theorem getIndex_page_witness:
  "getCurrentUser sessions [bob, alice] (asBob\<lparr>query_page := Some ''1''\<rparr>)
     = Inr (Some \<lparr>cu_email = ''bob@dylan.com'', cu_id = ''5f1e7d35c7ba06511e683b21''\<rparr>)
   \<and> Number_js (Some ''abc'') = NaN
   \<and> Number_js (Some ''-1'') = Finite (- 1) \<and> (- 1 :: rat) < 0
   \<and> Number_js (query_page (asBob\<lparr>query_page := Some ''1''\<rparr>)) = Finite (of_nat 1)
   \<and> getIndex sessions [bob, alice] [images, logo, myText] (asBob\<lparr>query_page := Some ''abc''\<rparr>)
       = getIndex sessions [bob, alice] [images, logo, myText] (asBob\<lparr>query_page := Some ''0''\<rparr>)
   \<and> getIndex sessions [bob, alice] [images, logo, myText] (asBob\<lparr>query_page := Some ''-1''\<rparr>)
       = getIndex sessions [bob, alice] [images, logo, myText] (asBob\<lparr>query_page := Some ''0''\<rparr>)
   \<and> getIndex sessions [bob, alice] [images, logo, myText] (asBob\<lparr>query_page := Some ''1''\<rparr>)
       = Inr (Response 200 (FilesBody []))"
proof -
  let ?req = "asBob\<lparr>query_page := Some ''1''\<rparr>"
  have a: "getCurrentUser sessions [bob, alice] ?req
     = Inr (Some \<lparr>cu_email = ''bob@dylan.com'', cu_id = ''5f1e7d35c7ba06511e683b21''\<rparr>)"
    by code_simp
  have b: "Number_js (Some ''abc'') = NaN"
    by code_simp
  have c: "Number_js (Some ''-1'') = Finite (- 1)"
    by code_simp
  have d: "(- 1 :: rat) < 0"
    by simp
  have "Number_js (Some ''1'') = Finite 1"
    by code_simp
  then have e: "Number_js (query_page ?req) = Finite (of_nat 1)"
    by simp
  from getIndex_page [OF a b c d e, of "[images, logo, myText]"]
  show ?thesis using a b c d e
    by (simp add: images_def logo_def myText_def)
qed

subsection \<open>Content\<close>

text \<open>
  C2. For a file that the lookup returns to the viewer and that is not a folder,
  \<^verbatim>\<open>getFile\<close> reads the path of the file followed by an underscore and the text of the
  \<^verbatim>\<open>size\<close> parameter when that text is numerically 500, 250 or 100, and the path of the
  file itself for every other or absent \<^verbatim>\<open>size\<close>. When nothing is stored at the chosen path
  the answer is 404 with the message Not found, the same answer as for a file that the
  lookup does not return; otherwise it is 200 with the bytes stored there.
\<close>

theorem getFile_path:
  assumes viewer: "getCurrentUser r users req = Inr viewer"
    and found: "findPublicOrOwnFile files
                  (case viewer of Some cu \<Rightarrow> Some (cu_id cu) | None \<Rightarrow> None) (param_id req)
                = Some f"
    and nofolder: "file_type f \<noteq> FOLDER"
    and lp: "file_localPath f = Some lp"
    and viewer0: "getCurrentUser r users req0 = Inr viewer0"
    and missing: "findPublicOrOwnFile files
                  (case viewer0 of Some cu \<Rightarrow> Some (cu_id cu) | None \<Rightarrow> None) (param_id req0)
                = None"
  shows "getFile mime r users files d req
           = (let path = (if Number_js (query_size req) \<in> {Finite 500, Finite 250, Finite 100}
                          then lp @ ''_'' @ String_js (query_size req) else lp)
              in case d path of
                   None \<Rightarrow> Inr (Response 404 (ErrorBody ''Not found''))
                 | Some bytes \<Rightarrow> Inr (Response 200 (DataBody (mime (file_name f)) bytes)))
         \<and> (Number_js (query_size req) \<in> {Finite 500, Finite 250, Finite 100}
              \<longrightarrow> query_size req \<noteq> None)
         \<and> getFile mime r users files d req0 = Inr (Response 404 (ErrorBody ''Not found''))"
proof -
  have 1: "Number_js (query_size req) \<in> {Finite 500, Finite 250, Finite 100}
             \<longrightarrow> query_size req \<noteq> None"
    by (auto simp: Number_js_def split: option.splits)
  have 2: "getFile mime r users files d req0 = Inr (Response 404 (ErrorBody ''Not found''))"
    using viewer0 missing by (simp add: getFile_def notFound_def)
  have 3: "getFile mime r users files d req
           = (let path = (if Number_js (query_size req) \<in> {Finite 500, Finite 250, Finite 100}
                          then lp @ ''_'' @ String_js (query_size req) else lp)
              in case d path of
                   None \<Rightarrow> Inr (Response 404 (ErrorBody ''Not found''))
                 | Some bytes \<Rightarrow> Inr (Response 200 (DataBody (mime (file_name f)) bytes)))"
    using viewer found nofolder lp
    by (simp add: getFile_def notFound_def Number_isNaN_def existsSync_def readFile_def
        String_js_def Let_def split: option.splits)
  show ?thesis using 1 2 3 by blast
qed

theorem getFile_path_witness:
  "getCurrentUser sessions [bob, alice]
      (bare\<lparr>param_id := ''5f1e8896c7ba06511e683b25'', query_size := Some ''250''\<rparr>) = Inr None
   \<and> findPublicOrOwnFile [images, logo, myText] None ''5f1e8896c7ba06511e683b25'' = Some logo
   \<and> file_type logo \<noteq> FOLDER
   \<and> file_localPath logo = Some ''/tmp/files_manager/51997b88-5c42-42c2-901e-e7f4e71bdc47''
   \<and> findPublicOrOwnFile [images, logo, myText] None ''5f1e879ec7ba06511e683b22'' = None
   \<and> Number_js (Some ''250'') \<in> {Finite 500, Finite 250, Finite 100}
   \<and> getFile (\<lambda>n. Some ''image/png'') sessions [bob, alice] [images, logo, myText] medium
         (bare\<lparr>param_id := ''5f1e8896c7ba06511e683b25'', query_size := Some ''250''\<rparr>)
       = Inr (Response 200 (DataBody (Some ''image/png'') ''png250''))
   \<and> getFile (\<lambda>n. Some ''image/png'') sessions [bob, alice] [images, logo, myText] medium
         (bare\<lparr>param_id := ''5f1e879ec7ba06511e683b22''\<rparr>)
       = Inr (Response 404 (ErrorBody ''Not found''))"
proof -
  let ?req = "bare\<lparr>param_id := ''5f1e8896c7ba06511e683b25'', query_size := Some ''250''\<rparr>"
  let ?other = "bare\<lparr>param_id := ''5f1e879ec7ba06511e683b22''\<rparr>"
  have a: "getCurrentUser sessions [bob, alice] ?req = Inr None"
    by (simp add: getCurrentUser_def getSessionToken_def bare_def)
  have b: "findPublicOrOwnFile [images, logo, myText]
             (case None of Some cu \<Rightarrow> Some (cu_id cu) | None \<Rightarrow> None) (param_id ?req) = Some logo"
    by (simp add: findPublicOrOwnFile_def images_def logo_def myText_def bare_def)
  have c: "file_type logo \<noteq> FOLDER"
    by (simp add: logo_def FOLDER_def)
  have d: "file_localPath logo = Some ''/tmp/files_manager/51997b88-5c42-42c2-901e-e7f4e71bdc47''"
    by (simp add: logo_def)
  have a0: "getCurrentUser sessions [bob, alice] ?other = Inr None"
    by (simp add: getCurrentUser_def getSessionToken_def bare_def)
  have b0: "findPublicOrOwnFile [images, logo, myText]
             (case None of Some cu \<Rightarrow> Some (cu_id cu) | None \<Rightarrow> None) (param_id ?other) = None"
    by (simp add: findPublicOrOwnFile_def images_def logo_def myText_def bare_def)
  have n: "Number_js (Some ''250'') = Finite 250"
    by code_simp
  from getFile_path [OF a b c d a0 b0, of "\<lambda>n. Some ''image/png''" medium]
  show ?thesis using a b c d b0 n
    by (simp add: bare_def String_js_def medium_def logo_def)
qed

text \<open>
  The name of the variant carries the text of the parameter as it was sent: the sizes
  written 500, 250 and 100 name the variants the worker writes, and another spelling of
  the same number names a path of its own.
\<close>

lemma size_spellings:
  "Number_js (Some ''500'') = Finite 500" "Number_js (Some ''100'') = Finite 100"
  "Number_js (Some ''5e2'') = Finite 500"
  by code_simp+

lemma find_unique_id:
  assumes "distinct (map file_id files)" and "f \<in> set files"
  shows "find (\<lambda>g. file_id g = file_id f \<and> P g) files = (if P f then Some f else None)"
  using assms
proof (induction files)
  case Nil
  then show ?case by simp
next
  case (Cons g gs)
  show ?case
  proof (cases "g = f")
    case True
    have "\<forall>h \<in> set gs. file_id h \<noteq> file_id f"
      using Cons.prems(1) True by (auto simp: image_iff)
    then have "find (\<lambda>g. file_id g = file_id f \<and> P g) gs = None"
      by (auto simp: find_None_iff)
    then show ?thesis using True by simp
  next
    case False
    then have in_gs: "f \<in> set gs" using Cons.prems(2) by simp
    then have "file_id g \<noteq> file_id f" using Cons.prems(1) by auto
    then show ?thesis using Cons.IH in_gs Cons.prems(1) by simp
  qed
qed

lemma find_absent_id:
  "fid \<notin> file_id ` set files \<Longrightarrow> find (\<lambda>g. file_id g = fid \<and> P g) files = None"
  by (auto simp: find_None_iff)

lemma findPublicOrOwnFile_unique:
  assumes "distinct (map file_id files)" and "f \<in> set files"
  shows "findPublicOrOwnFile files viewer (file_id f)
           = (if file_isPublic f \<or> viewer = Some (file_userId f) then Some f else None)"
  unfolding findPublicOrOwnFile_def
  using find_unique_id [OF assms, of "\<lambda>g. file_isPublic g \<or> viewer = Some (file_userId g)"]
  by simp

lemma findUserFileById_unique:
  assumes "distinct (map file_id files)" and "f \<in> set files"
  shows "findUserFileById files uid (file_id f)
           = (if file_userId f = uid then Some f else None)"
  unfolding findUserFileById_def
  using find_unique_id [OF assms, of "\<lambda>g. file_userId g = uid"]
  by simp

lemma getFile_served_visible:
  assumes "getFile mime r users files d req = Inr (Response 200 b)"
  shows "\<exists>g \<in> set files. file_id g = param_id req
           \<and> (file_isPublic g
               \<or> (\<exists>cu. getCurrentUser r users req = Inr (Some cu) \<and> cu_id cu = file_userId g))"
proof -
  obtain viewer where v: "getCurrentUser r users req = Inr viewer"
    using assms by (cases "getCurrentUser r users req") (auto simp: getFile_def)
  let ?vid = "case viewer of Some cu \<Rightarrow> Some (cu_id cu) | None \<Rightarrow> None"
  obtain g where g: "findPublicOrOwnFile files ?vid (param_id req) = Some g"
    using assms v
    by (cases "findPublicOrOwnFile files ?vid (param_id req)")
      (auto simp: getFile_def notFound_def)
  then have "g \<in> set files" "file_id g = param_id req"
    "file_isPublic g \<or> ?vid = Some (file_userId g)"
    by (auto simp: findPublicOrOwnFile_def find_Some_iff)
  then show ?thesis using v by (auto split: option.splits)
qed

text \<open>
  C5. In a store whose files have distinct identifiers, the lookup for serving returns
  a file to an anonymous viewer exactly when the file is public, and to its owner always.
  For such a file \<^verbatim>\<open>getFile\<close> answers 404 when the viewer may not see it, 400 with the
  message A folder doesn't have content when it is a folder, and otherwise serves the
  chosen path. In every store it answers 404 for an identifier that no file has, and
  whenever it answers 200 the file is public or owned by the caller. A request without a
  session is answered 401 by \<^verbatim>\<open>getShow\<close>, \<^verbatim>\<open>getIndex\<close>, \<^verbatim>\<open>updatePublication\<close> and
  \<^verbatim>\<open>postUpload\<close>, which leave the store and the queue as they were. Each part holds
  under its own condition only.
\<close>

theorem getFile_visibility:
  "(distinct (map file_id files) \<and> f \<in> set files \<longrightarrow>
      findPublicOrOwnFile files None (file_id f) = (if file_isPublic f then Some f else None)
      \<and> findPublicOrOwnFile files (Some (file_userId f)) (file_id f) = Some f
      \<and> (getCurrentUser r users req = Inr viewer \<and> param_id req = file_id f \<longrightarrow>
           getFile mime r users files d req
           = (if \<not> (file_isPublic f \<or> (\<exists>cu. viewer = Some cu \<and> cu_id cu = file_userId f))
              then Inr (Response 404 (ErrorBody ''Not found''))
              else if file_type f = FOLDER
              then Inr (Response 400 (ErrorBody ''A folder doesn't have content''))
              else (let path = (if Number_js (query_size req)
                                    \<in> {Finite 500, Finite 250, Finite 100}
                                then Some (String_js (file_localPath f) @ ''_''
                                           @ String_js (query_size req))
                                else file_localPath f)
                    in if existsSync d path
                       then Inr (Response 200 (DataBody (mime (file_name f)) (readFile d path)))
                       else Inr (Response 404 (ErrorBody ''Not found''))))))
   \<and> (getCurrentUser r users gone = Inr caller \<and> param_id gone \<notin> file_id ` set files \<longrightarrow>
        getFile mime r users files d gone = Inr (Response 404 (ErrorBody ''Not found'')))
   \<and> (getFile mime r users files d other = Inr (Response 200 b) \<longrightarrow>
        (\<exists>g \<in> set files. file_id g = param_id other
           \<and> (file_isPublic g
               \<or> (\<exists>cu. getCurrentUser r users other = Inr (Some cu)
                        \<and> cu_id cu = file_userId g))))
   \<and> (getCurrentUser r users anon = Inr None \<longrightarrow>
        getShow r users files anon = Inr (Response 401 (ErrorBody ''Unauthorized''))
        \<and> getIndex r users files anon = Inr (Response 401 (ErrorBody ''Unauthorized''))
        \<and> updatePublication r users files anon p
           = Inr (Response 401 (ErrorBody ''Unauthorized''), files)
        \<and> postUpload save r users store q anon
           = Inr (Response 401 (ErrorBody ''Unauthorized''), store, q))"
proof (intro conjI impI)
  assume h: "distinct (map file_id files) \<and> f \<in> set files"
  then have ids: "distinct (map file_id files)" and f: "f \<in> set files" by simp_all
  show "findPublicOrOwnFile files None (file_id f) = (if file_isPublic f then Some f else None)"
    using findPublicOrOwnFile_unique [OF ids f, of None] by simp
  show "findPublicOrOwnFile files (Some (file_userId f)) (file_id f) = Some f"
    using findPublicOrOwnFile_unique [OF ids f, of "Some (file_userId f)"] by simp
  assume v: "getCurrentUser r users req = Inr viewer \<and> param_id req = file_id f"
  let ?vid = "case viewer of Some cu \<Rightarrow> Some (cu_id cu) | None \<Rightarrow> None"
  have vis: "(?vid = Some (file_userId f)) = (\<exists>cu. viewer = Some cu \<and> cu_id cu = file_userId f)"
    by (cases viewer) auto
  show "getFile mime r users files d req
           = (if \<not> (file_isPublic f \<or> (\<exists>cu. viewer = Some cu \<and> cu_id cu = file_userId f))
              then Inr (Response 404 (ErrorBody ''Not found''))
              else if file_type f = FOLDER
              then Inr (Response 400 (ErrorBody ''A folder doesn't have content''))
              else (let path = (if Number_js (query_size req)
                                    \<in> {Finite 500, Finite 250, Finite 100}
                                then Some (String_js (file_localPath f) @ ''_''
                                           @ String_js (query_size req))
                                else file_localPath f)
                    in if existsSync d path
                       then Inr (Response 200 (DataBody (mime (file_name f)) (readFile d path)))
                       else Inr (Response 404 (ErrorBody ''Not found''))))"
    using v findPublicOrOwnFile_unique [OF ids f, of ?vid] vis
    by (simp add: getFile_def notFound_def Number_isNaN_def Let_def)
next
  assume g: "getCurrentUser r users gone = Inr caller \<and> param_id gone \<notin> file_id ` set files"
  then have "findPublicOrOwnFile files
               (case caller of Some cu \<Rightarrow> Some (cu_id cu) | None \<Rightarrow> None) (param_id gone) = None"
    unfolding findPublicOrOwnFile_def by (intro find_absent_id) simp
  then show "getFile mime r users files d gone = Inr (Response 404 (ErrorBody ''Not found''))"
    using g by (simp add: getFile_def notFound_def)
next
  assume "getFile mime r users files d other = Inr (Response 200 b)"
  then show "\<exists>g \<in> set files. file_id g = param_id other
           \<and> (file_isPublic g
               \<or> (\<exists>cu. getCurrentUser r users other = Inr (Some cu)
                        \<and> cu_id cu = file_userId g))"
    by (rule getFile_served_visible)
next
  assume anon: "getCurrentUser r users anon = Inr None"
  show "getShow r users files anon = Inr (Response 401 (ErrorBody ''Unauthorized''))"
    using anon by (simp add: getShow_def unauthorized_def)
  show "getIndex r users files anon = Inr (Response 401 (ErrorBody ''Unauthorized''))"
    using anon by (simp add: getIndex_def unauthorized_def)
  show "updatePublication r users files anon p
           = Inr (Response 401 (ErrorBody ''Unauthorized''), files)"
    using anon by (simp add: updatePublication_def unauthorized_def)
  show "postUpload save r users store q anon
           = Inr (Response 401 (ErrorBody ''Unauthorized''), store, q)"
    using anon by (simp add: postUpload_def unauthorized_def)
qed

theorem getFile_visibility_witness:
  "distinct (map file_id [images, logo, myText])
   \<and> getCurrentUser sessions [bob, alice] (bare\<lparr>param_id := ''5f1e879ec7ba06511e683b22''\<rparr>)
       = Inr None
   \<and> getCurrentUser sessions [bob, alice] (asBob\<lparr>param_id := ''5f1e881cc7ba06511e683b23''\<rparr>)
       = Inr (Some \<lparr>cu_email = ''bob@dylan.com'', cu_id = ''5f1e7d35c7ba06511e683b21''\<rparr>)
   \<and> findPublicOrOwnFile [images, logo, myText] None (file_id myText) = None
   \<and> findPublicOrOwnFile [images, logo, myText] None (file_id logo) = Some logo
   \<and> findPublicOrOwnFile [images, logo, myText] (Some (file_userId myText)) (file_id myText)
       = Some myText
   \<and> getFile (\<lambda>n. Some ''image/png'') sessions [bob, alice] [images, logo, myText] medium
         (bare\<lparr>param_id := ''5f1e879ec7ba06511e683b22''\<rparr>)
       = Inr (Response 404 (ErrorBody ''Not found''))
   \<and> getFile (\<lambda>n. Some ''image/png'') sessions [bob, alice] [images, logo, myText] medium
         (asBob\<lparr>param_id := ''5f1e879ec7ba06511e683b22''\<rparr>)
       = Inr (Response 404 (ErrorBody ''Not found''))
   \<and> getFile (\<lambda>n. Some ''image/png'') sessions [bob, alice] [images, logo, myText] medium
         (asBob\<lparr>param_id := ''5f1e881cc7ba06511e683b23''\<rparr>)
       = Inr (Response 400 (ErrorBody ''A folder doesn't have content''))
   \<and> getFile (\<lambda>n. Some ''image/png'') sessions [bob, alice] [images, logo, myText] medium
         (bare\<lparr>param_id := ''5f1e8896c7ba06511e683b25'', query_size := Some ''250''\<rparr>)
       = Inr (Response 200 (DataBody (Some ''image/png'') ''png250''))
   \<and> getFile (\<lambda>n. Some ''image/png'') sessions [bob, alice] [images, logo, myText] medium
         (asBob\<lparr>param_id := ''5f1e879ec7ba06511e683b99''\<rparr>)
       = Inr (Response 404 (ErrorBody ''Not found''))
   \<and> (\<exists>g \<in> set [images, logo, myText]. file_id g = ''5f1e8896c7ba06511e683b25''
         \<and> file_isPublic g)
   \<and> getShow sessions [bob, alice] [images, logo, myText] bare
       = Inr (Response 401 (ErrorBody ''Unauthorized''))
   \<and> getIndex sessions [bob, alice] [images, logo, myText] bare
       = Inr (Response 401 (ErrorBody ''Unauthorized''))
   \<and> updatePublication sessions [bob, alice] [images, logo, myText] bare True
       = Inr (Response 401 (ErrorBody ''Unauthorized''), [images, logo, myText])
   \<and> postUpload keep sessions [bob, alice] [images] [] bare
       = Inr (Response 401 (ErrorBody ''Unauthorized''), [images], [])"
proof -
  let ?F = "[images, logo, myText]"
  let ?U = "[bob, alice]"
  let ?m = "\<lambda>n::string. Some ''image/png''"
  let ?cu = "\<lparr>cu_email = ''bob@dylan.com'', cu_id = ''5f1e7d35c7ba06511e683b21''\<rparr>"
  let ?private = "bare\<lparr>param_id := ''5f1e879ec7ba06511e683b22''\<rparr>"
  let ?foreign = "asBob\<lparr>param_id := ''5f1e879ec7ba06511e683b22''\<rparr>"
  let ?folder = "asBob\<lparr>param_id := ''5f1e881cc7ba06511e683b23''\<rparr>"
  let ?thumb = "bare\<lparr>param_id := ''5f1e8896c7ba06511e683b25'', query_size := Some ''250''\<rparr>"
  let ?gone = "asBob\<lparr>param_id := ''5f1e879ec7ba06511e683b99''\<rparr>"
  note T = getFile_visibility [where files = ?F and r = sessions and users = ?U and mime = ?m
      and d = medium and gone = ?gone and caller = "Some ?cu" and other = ?thumb
      and b = "DataBody (Some ''image/png'') ''png250''" and anon = bare and p = True
      and save = keep and store = "[images]" and q = "[]"]
  have ids: "distinct (map file_id ?F)"
    by (simp add: images_def logo_def myText_def)
  have anonymous: "getCurrentUser sessions ?U bare = Inr None"
    "getCurrentUser sessions ?U ?private = Inr None"
    "getCurrentUser sessions ?U ?thumb = Inr None"
    by (simp_all add: getCurrentUser_def getSessionToken_def bare_def)
  have session: "getCurrentUser sessions ?U ?foreign = Inr (Some ?cu)"
    "getCurrentUser sessions ?U ?folder = Inr (Some ?cu)"
    "getCurrentUser sessions ?U ?gone = Inr (Some ?cu)"
    by code_simp+
  have n: "Number_js (Some ''250'') = Finite 250"
    by code_simp
  have absent: "param_id ?gone \<notin> file_id ` set ?F"
    by (simp add: images_def logo_def myText_def)
  note P = T [where f = myText and req = ?private and viewer = None]
  note Q = T [where f = myText and req = ?foreign and viewer = "Some ?cu"]
  note R = T [where f = images and req = ?folder and viewer = "Some ?cu"]
  note S = T [where f = logo and req = ?thumb and viewer = None]
  have inF: "myText \<in> set ?F" "images \<in> set ?F" "logo \<in> set ?F"
    by simp_all
  have look: "findPublicOrOwnFile ?F None (file_id myText) = None"
    "findPublicOrOwnFile ?F (Some (file_userId myText)) (file_id myText) = Some myText"
    using P [THEN conjunct1, THEN mp, OF conjI [OF ids inF(1)]]
    by (simp_all add: myText_def)
  have look': "findPublicOrOwnFile ?F None (file_id logo) = Some logo"
    using S [THEN conjunct1, THEN mp, OF conjI [OF ids inF(3)]]
    by (simp add: logo_def)
  have denied: "getFile ?m sessions ?U ?F medium ?private
                  = Inr (Response 404 (ErrorBody ''Not found''))"
    using P [THEN conjunct1, THEN mp, OF conjI [OF ids inF(1)], THEN conjunct2, THEN conjunct2,
        THEN mp, OF conjI [OF anonymous(2)]]
    by (simp add: myText_def)
  have denied': "getFile ?m sessions ?U ?F medium ?foreign
                  = Inr (Response 404 (ErrorBody ''Not found''))"
    using Q [THEN conjunct1, THEN mp, OF conjI [OF ids inF(1)], THEN conjunct2, THEN conjunct2,
        THEN mp, OF conjI [OF session(1)]]
    by (simp add: myText_def)
  have folder: "getFile ?m sessions ?U ?F medium ?folder
                  = Inr (Response 400 (ErrorBody ''A folder doesn't have content''))"
    using R [THEN conjunct1, THEN mp, OF conjI [OF ids inF(2)], THEN conjunct2, THEN conjunct2,
        THEN mp, OF conjI [OF session(2)]]
    by (simp add: images_def FOLDER_def)
  have served: "getFile ?m sessions ?U ?F medium ?thumb
                  = Inr (Response 200 (DataBody (Some ''image/png'') ''png250''))"
    using S [THEN conjunct1, THEN mp, OF conjI [OF ids inF(3)], THEN conjunct2, THEN conjunct2,
        THEN mp, OF conjI [OF anonymous(3)]] n
    by (simp add: logo_def FOLDER_def String_js_def existsSync_def readFile_def medium_def)
  have unknown: "getFile ?m sessions ?U ?F medium ?gone
                  = Inr (Response 404 (ErrorBody ''Not found''))"
    using P [THEN conjunct2, THEN conjunct1, THEN mp, OF conjI [OF session(3) absent]] .
  have visible: "\<exists>g \<in> set ?F. file_id g = ''5f1e8896c7ba06511e683b25'' \<and> file_isPublic g"
    using P [THEN conjunct2, THEN conjunct2, THEN conjunct1, THEN mp, OF served] anonymous(3)
    by simp
  have rest: "getShow sessions ?U ?F bare = Inr (Response 401 (ErrorBody ''Unauthorized''))"
    "getIndex sessions ?U ?F bare = Inr (Response 401 (ErrorBody ''Unauthorized''))"
    "updatePublication sessions ?U ?F bare True
       = Inr (Response 401 (ErrorBody ''Unauthorized''), ?F)"
    "postUpload keep sessions ?U [images] [] bare
       = Inr (Response 401 (ErrorBody ''Unauthorized''), [images], [])"
    using P [THEN conjunct2, THEN conjunct2, THEN conjunct2, THEN mp, OF anonymous(1)]
    by simp_all
  show ?thesis
    using ids anonymous(2) session(2) look look' denied denied' folder served unknown visible rest
    by (intro conjI)
qed

subsection \<open>Ownership\<close>

lemma setPublication_not_owned:
  "find (\<lambda>f. file_id f = fid \<and> file_userId f = uid) files = None
   \<Longrightarrow> setPublication files uid fid b = files"
  by (induction files) (auto split: if_splits)

text \<open>
  C6. In a store whose files have distinct identifiers, a caller who asks
  \<^verbatim>\<open>getShow\<close>, \<^verbatim>\<open>putPublish\<close> or \<^verbatim>\<open>putUnpublish\<close> for a file of another user gets 404 with
  the message Not found and an unchanged store, exactly the answer to the same caller
  asking for an identifier that no file has.
\<close>

theorem not_owned_is_not_found:
  assumes ids: "distinct (map file_id files)"
    and f: "f \<in> set files"
    and caller: "getCurrentUser r users req = Inr (Some cu)"
    and target: "param_id req = file_id f"
    and other: "file_userId f \<noteq> cu_id cu"
    and caller': "getCurrentUser r users req' = Inr (Some cu)"
    and absent: "param_id req' \<notin> file_id ` set files"
  shows "getShow r users files req = Inr (Response 404 (ErrorBody ''Not found''))
         \<and> getShow r users files req' = getShow r users files req
         \<and> updatePublication r users files req b
            = Inr (Response 404 (ErrorBody ''Not found''), files)
         \<and> updatePublication r users files req' b = updatePublication r users files req b
         \<and> putPublish r users files req' = putPublish r users files req
         \<and> putUnpublish r users files req' = putUnpublish r users files req"
proof -
  have 1: "findUserFileById files (cu_id cu) (param_id req) = None"
    using findUserFileById_unique [OF ids f, of "cu_id cu"] target other by simp
  have 2: "findUserFileById files (cu_id cu) (param_id req') = None"
    unfolding findUserFileById_def using absent by (rule find_absent_id)
  have s1: "getShow r users files req = Inr (Response 404 (ErrorBody ''Not found''))"
    using caller 1 by (simp add: getShow_def notFound_def)
  have s2: "getShow r users files req' = Inr (Response 404 (ErrorBody ''Not found''))"
    using caller' 2 by (simp add: getShow_def notFound_def)
  have u1: "updatePublication r users files req p
            = Inr (Response 404 (ErrorBody ''Not found''), files)" for p
    using caller 1 by (simp add: updatePublication_def updateFilePublication_def notFound_def)
  have u2: "updatePublication r users files req' p
            = Inr (Response 404 (ErrorBody ''Not found''), files)" for p
    using caller' 2 by (simp add: updatePublication_def updateFilePublication_def notFound_def)
  show ?thesis
    using s1 s2 u1 u2 by (simp add: putPublish_def putUnpublish_def)
qed

theorem not_owned_is_not_found_witness:
  "distinct (map file_id [images, logo, myText])
   \<and> myText \<in> set [images, logo, myText]
   \<and> getCurrentUser sessions [bob, alice] (asBob\<lparr>param_id := ''5f1e879ec7ba06511e683b22''\<rparr>)
       = Inr (Some \<lparr>cu_email = ''bob@dylan.com'', cu_id = ''5f1e7d35c7ba06511e683b21''\<rparr>)
   \<and> param_id (asBob\<lparr>param_id := ''5f1e879ec7ba06511e683b22''\<rparr>) = file_id myText
   \<and> file_userId myText \<noteq> ''5f1e7d35c7ba06511e683b21''
   \<and> getCurrentUser sessions [bob, alice] (asBob\<lparr>param_id := ''5f1e879ec7ba06511e683b99''\<rparr>)
       = Inr (Some \<lparr>cu_email = ''bob@dylan.com'', cu_id = ''5f1e7d35c7ba06511e683b21''\<rparr>)
   \<and> ''5f1e879ec7ba06511e683b99'' \<notin> file_id ` set [images, logo, myText]
   \<and> getShow sessions [bob, alice] [images, logo, myText]
         (asBob\<lparr>param_id := ''5f1e879ec7ba06511e683b22''\<rparr>)
       = Inr (Response 404 (ErrorBody ''Not found''))
   \<and> getShow sessions [bob, alice] [images, logo, myText]
         (asBob\<lparr>param_id := ''5f1e879ec7ba06511e683b99''\<rparr>)
       = Inr (Response 404 (ErrorBody ''Not found''))
   \<and> putPublish sessions [bob, alice] [images, logo, myText]
         (asBob\<lparr>param_id := ''5f1e879ec7ba06511e683b22''\<rparr>)
       = Inr (Response 404 (ErrorBody ''Not found''), [images, logo, myText])"
proof -
  let ?req = "asBob\<lparr>param_id := ''5f1e879ec7ba06511e683b22''\<rparr>"
  let ?other = "asBob\<lparr>param_id := ''5f1e879ec7ba06511e683b99''\<rparr>"
  let ?cu = "\<lparr>cu_email = ''bob@dylan.com'', cu_id = ''5f1e7d35c7ba06511e683b21''\<rparr>"
  have a: "distinct (map file_id [images, logo, myText])"
    by (simp add: images_def logo_def myText_def)
  have b: "myText \<in> set [images, logo, myText]"
    by simp
  have c: "getCurrentUser sessions [bob, alice] ?req = Inr (Some ?cu)"
    by code_simp
  have d: "param_id ?req = file_id myText"
    by (simp add: myText_def)
  have e: "file_userId myText \<noteq> cu_id ?cu"
    by (simp add: myText_def)
  have f: "getCurrentUser sessions [bob, alice] ?other = Inr (Some ?cu)"
    by code_simp
  have g: "param_id ?other \<notin> file_id ` set [images, logo, myText]"
    by (simp add: images_def logo_def myText_def)
  from not_owned_is_not_found [OF a b c d e f g, of True]
  show ?thesis using a b c d e f g
    by (simp add: putPublish_def)
qed

subsection \<open>Upload and the thumbnail queue\<close>

lemma upload_saved:
  assumes "getCurrentUser r users req = Inr (Some cu)"
    and "save (cu_id cu) (body_name req) (body_type req) (body_parentId req)
                (body_isPublic req) (body_data req) store = (Inr savedFile, store')"
  shows "postUpload save r users store q req
           = Inr (Response 201 (FileBody savedFile), store',
                  if file_type savedFile = ''image''
                  then q @ [\<lparr>job_userId = cu_id cu, job_fileId = file_id savedFile\<rparr>]
                  else q)"
  using assms by (simp add: postUpload_def Let_def)

text \<open>
  C7. Whenever \<^verbatim>\<open>postUpload\<close> answers 201, the caller has a session and the save returned
  a file; the answer carries that file, and the queue is the queue before with one job
  for the caller and the file appended when the kind of the file is image, and the
  queue before, unchanged, for every other kind, folder and file among them.
\<close>

theorem upload_enqueues_for_images:
  assumes "postUpload save r users store q req = Inr (Response 201 b, store', q')"
  shows "\<exists>cu savedFile.
           getCurrentUser r users req = Inr (Some cu)
           \<and> save (cu_id cu) (body_name req) (body_type req) (body_parentId req)
                (body_isPublic req) (body_data req) store = (Inr savedFile, store')
           \<and> b = FileBody savedFile
           \<and> q' = (if file_type savedFile = ''image''
                    then q @ [\<lparr>job_userId = cu_id cu, job_fileId = file_id savedFile\<rparr>]
                    else q)
           \<and> (file_type savedFile = ''folder'' \<or> file_type savedFile = ''file'' \<longrightarrow> q' = q)"
  using assms
  by (auto simp: postUpload_def unauthorized_def Let_def
      split: sum.splits option.splits prod.splits if_splits)

theorem upload_enqueues_for_images_witness:
  "postUpload keep sessions [bob, alice] [images] []
      (asBob\<lparr>body_name := Some ''image.png'', body_type := Some ''image'',
              body_parentId := Some ''5f1e881cc7ba06511e683b23''\<rparr>)
     = Inr (Response 201
              (FileBody \<lparr>file_id = ''5f1e8896c7ba06511e683b26'',
                file_userId = ''5f1e7d35c7ba06511e683b21'', file_name = ''image.png'',
                file_type = ''image'', file_isPublic = False,
                file_parentId = Some ''5f1e881cc7ba06511e683b23'',
                file_localPath = None\<rparr>),
            [images, \<lparr>file_id = ''5f1e8896c7ba06511e683b26'',
                file_userId = ''5f1e7d35c7ba06511e683b21'', file_name = ''image.png'',
                file_type = ''image'', file_isPublic = False,
                file_parentId = Some ''5f1e881cc7ba06511e683b23'',
                file_localPath = None\<rparr>],
            [\<lparr>job_userId = ''5f1e7d35c7ba06511e683b21'', job_fileId = ''5f1e8896c7ba06511e683b26''\<rparr>])
   \<and> (\<exists>cu savedFile.
         getCurrentUser sessions [bob, alice]
           (asBob\<lparr>body_name := Some ''image.png'', body_type := Some ''image'',
              body_parentId := Some ''5f1e881cc7ba06511e683b23''\<rparr>) = Inr (Some cu)
         \<and> FileBody \<lparr>file_id = ''5f1e8896c7ba06511e683b26'',
                file_userId = ''5f1e7d35c7ba06511e683b21'', file_name = ''image.png'',
                file_type = ''image'', file_isPublic = False,
                file_parentId = Some ''5f1e881cc7ba06511e683b23'',
                file_localPath = None\<rparr> = FileBody savedFile
         \<and> file_type savedFile = ''image''
         \<and> [\<lparr>job_userId = ''5f1e7d35c7ba06511e683b21'', job_fileId = ''5f1e8896c7ba06511e683b26''\<rparr>]
             = [] @ [\<lparr>job_userId = cu_id cu, job_fileId = file_id savedFile\<rparr>])"
proof -
  let ?req = "(asBob\<lparr>body_name := Some ''image.png'', body_type := Some ''image'',
              body_parentId := Some ''5f1e881cc7ba06511e683b23''\<rparr>)"
  let ?doc = "\<lparr>file_id = ''5f1e8896c7ba06511e683b26'',
                file_userId = ''5f1e7d35c7ba06511e683b21'', file_name = ''image.png'',
                file_type = ''image'', file_isPublic = False,
                file_parentId = Some ''5f1e881cc7ba06511e683b23'',
                file_localPath = None\<rparr>"
  let ?job = "\<lparr>job_userId = ''5f1e7d35c7ba06511e683b21'', job_fileId = ''5f1e8896c7ba06511e683b26''\<rparr>"
  have a: "postUpload keep sessions [bob, alice] [images] [] ?req
     = Inr (Response 201 (FileBody ?doc), [images, ?doc], [?job])"
    by code_simp
  from upload_enqueues_for_images [OF a]
  obtain cu savedFile where
    1: "getCurrentUser sessions [bob, alice] ?req = Inr (Some cu)"
    and 2: "FileBody ?doc = FileBody savedFile"
    and 3: "[?job] = (if file_type savedFile = ''image''
                      then [] @ [\<lparr>job_userId = cu_id cu, job_fileId = file_id savedFile\<rparr>]
                      else [])"
    by blast
  from 2 have 4: "file_type savedFile = ''image''"
    by auto
  with 3 have 5: "[?job] = [] @ [\<lparr>job_userId = cu_id cu, job_fileId = file_id savedFile\<rparr>]"
    by simp
  have "\<exists>cu savedFile.
         getCurrentUser sessions [bob, alice] ?req = Inr (Some cu)
         \<and> FileBody ?doc = FileBody savedFile
         \<and> file_type savedFile = ''image''
         \<and> [?job] = [] @ [\<lparr>job_userId = cu_id cu, job_fileId = file_id savedFile\<rparr>]"
  proof (intro exI conjI)
    show "getCurrentUser sessions [bob, alice] ?req = Inr (Some cu)" by (rule 1)
    show "FileBody ?doc = FileBody savedFile" by (rule 2)
    show "file_type savedFile = ''image''" by (rule 4)
    show "[?job] = [] @ [\<lparr>job_userId = cu_id cu, job_fileId = file_id savedFile\<rparr>]" by (rule 5)
  qed
  with a show ?thesis by (rule conjI)
qed

text \<open>
  C9. When the construction or the save of the file raises an error, \<^verbatim>\<open>postUpload\<close>
  answers 400 with the message of the error and the queue is as it was; more generally
  the queue is unchanged whenever the answer is not 201.
\<close>

theorem failed_upload_enqueues_nothing:
  assumes caller: "getCurrentUser r users req = Inr (Some cu)"
    and raised: "save (cu_id cu) (body_name req) (body_type req) (body_parentId req)
                (body_isPublic req) (body_data req) store = (Inl message, store')"
    and other: "postUpload save r' users' st q req' = Inr (Response status b, st', q')"
    and failed: "status \<noteq> 201"
  shows "postUpload save r users store q req
           = Inr (Response 400 (ErrorBody message), store', q)
         \<and> q' = q"
proof -
  have 1: "postUpload save r users store q req = Inr (Response 400 (ErrorBody message), store', q)"
    using caller raised by (simp add: postUpload_def)
  have 2: "q' = q"
    using other failed
    by (auto simp: postUpload_def unauthorized_def Let_def
        split: sum.splits option.splits prod.splits if_splits)
  show ?thesis using 1 2 by simp
qed

theorem failed_upload_enqueues_nothing_witness:
  "getCurrentUser sessions [bob, alice] (asBob\<lparr>body_type := Some ''image''\<rparr>)
     = Inr (Some \<lparr>cu_email = ''bob@dylan.com'', cu_id = ''5f1e7d35c7ba06511e683b21''\<rparr>)
   \<and> keep ''5f1e7d35c7ba06511e683b21'' None (Some ''image'') None None None [images]
       = (Inl ''Missing name'', [images])
   \<and> postUpload keep sessions [bob, alice] [images] [] (bare\<lparr>body_type := Some ''image''\<rparr>)
       = Inr (Response 401 (ErrorBody ''Unauthorized''), [images], [])
   \<and> (401 :: nat) \<noteq> 201
   \<and> postUpload keep sessions [bob, alice] [images] [] (asBob\<lparr>body_type := Some ''image''\<rparr>)
       = Inr (Response 400 (ErrorBody ''Missing name''), [images], [])"
proof -
  let ?req = "asBob\<lparr>body_type := Some ''image''\<rparr>"
  let ?cu = "\<lparr>cu_email = ''bob@dylan.com'', cu_id = ''5f1e7d35c7ba06511e683b21''\<rparr>"
  have a: "getCurrentUser sessions [bob, alice] ?req = Inr (Some ?cu)"
    by code_simp
  have b: "keep (cu_id ?cu) (body_name ?req) (body_type ?req) (body_parentId ?req)
             (body_isPublic ?req) (body_data ?req) [images] = (Inl ''Missing name'', [images])"
    by (simp add: keep_def asBob_def bare_def)
  have c: "postUpload keep sessions [bob, alice] [images] [] (bare\<lparr>body_type := Some ''image''\<rparr>)
       = Inr (Response 401 (ErrorBody ''Unauthorized''), [images], [])"
    by code_simp
  have d: "(401 :: nat) \<noteq> 201"
    by simp
  from failed_upload_enqueues_nothing [OF a b c d]
  show ?thesis using a b c d
    by (simp add: asBob_def bare_def)
qed

end
